theory Spec2Isabelle
  imports Main "HOL-Library.Sublist"
begin

section \<open>Data model\<close>

text \<open>
  The completion engine of the Cypher language server
  (\<^verbatim>\<open>src/server/src/tests/autocompletion.test.ts\<close>, second document of the file,
  lines 201 to 568). The lexer, the parser, the candidate collector of antlr4-c3 and
  the helpers \<^verbatim>\<open>findParent\<close>, \<^verbatim>\<open>findStopNode\<close> are imported by that code
  and are not part of it: wherever the code calls one of them, the model takes it as a
  parameter, so every theorem holds for any parser, collector and helper.
\<close>

text \<open>\<^verbatim>\<open>CompletionItemKind\<close>: the four kinds the engine emits.\<close>

datatype CompletionItemKind = Keyword | TypeParameter | Function | Value

text \<open>
  \<^verbatim>\<open>CompletionItem\<close>: \<^verbatim>\<open>{label, kind}\<close>. The label slot holds a JavaScript
  value: a string, or \<^verbatim>\<open>undefined\<close> (\<open>None\<close>) when
  \<^verbatim>\<open>databaseNames.concat(aliasNames)\<close> is called with \<^verbatim>\<open>aliasNames\<close> absent and
  \<^verbatim>\<open>concat\<close> appends the \<^verbatim>\<open>undefined\<close> argument as an element.
\<close>

record CompletionItem =
  label :: "string option"
  kind :: CompletionItemKind

text \<open>
  Token types are the numeric constants of the generated lexer. The code names two of
  them, \<^verbatim>\<open>SPACE\<close> (as \<^verbatim>\<open>CypherParser.SPACE\<close> and \<^verbatim>\<open>CypherLexer.SPACE\<close>, the
  same constant) and \<^verbatim>\<open>EOF\<close>; every other token type is \<open>OtherToken n\<close>.
\<close>

datatype TokenType = SPACE | EOF | OtherToken nat

record Token =
  tokenType :: TokenType
  tokenText :: string

text \<open>
  Grammar rules are the \<^verbatim>\<open>CypherParser.RULE_...\<close> constants; the ones the code names
  are constructors, every other rule is \<open>RULE_other n\<close>.
\<close>

datatype Rule =
    RULE_unescapedSymbolicNameString
  | RULE_escapedSymbolicNameString
  | RULE_stringLiteral
  | RULE_symbolicLabelNameString
  | RULE_symbolicAliasName
  | RULE_procedureName
  | RULE_functionName
  | RULE_relationshipPattern
  | RULE_nodePattern
  | RULE_labelExpression
  | RULE_createAlias
  | RULE_createDatabase
  | RULE_createCompositeDatabase
  | RULE_dropAlias
  | RULE_alterAlias
  | RULE_showAliases
  | RULE_other nat

text \<open>
  A parse-tree node (\<^verbatim>\<open>ParserRuleContext\<close>): the class it is an instance of, the
  text it covers (\<^verbatim>\<open>getText()\<close>) and its parent (\<^verbatim>\<open>parentCtx\<close>).
  \<^verbatim>\<open>p instanceof C\<close> is \<open>ctxClass p = C\<close>.
\<close>

datatype ContextClass =
    LabelExpression4Context
  | LabelExpression4IsContext
  | NodePatternContext
  | RelationshipPatternContext
  | Expression2Context
  | ProcedureNameContext
  | OtherContext nat

datatype ParserRuleContext =
  ParserRuleContext (ctxClass: ContextClass) (getText: string)
    (parentCtx: "ParserRuleContext option")

text \<open>
  \<^verbatim>\<open>DbInfo\<close>, the schema snapshot. Signature catalogs are JavaScript \<^verbatim>\<open>Map\<close>s,
  read through \<^verbatim>\<open>keys()\<close> in insertion order: association lists. A field can be
  absent at run time (\<^verbatim>\<open>DbSchema\<close>, lines 570 to 579, declares every field optional):
  \<open>None\<close> is \<^verbatim>\<open>undefined\<close>.
\<close>

type_synonym SignatureInformation = string

record DbInfo =
  labels :: "string list option"
  relationshipTypes :: "string list option"
  procedureSignatures :: "(string \<times> SignatureInformation) list option"
  functionSignatures :: "(string \<times> SignatureInformation) list option"
  databaseNames :: "string list option"
  aliasNames :: "string list option"

text \<open>
  The parsing result: the parser, the token array (the synthetic end marker last) and
  the tree. Parser and tree are opaque to the code, which only hands them to the
  collector and to \<^verbatim>\<open>findStopNode\<close>.
\<close>

record ('parser, 'tree) ParsingResult =
  parser :: 'parser
  tokens :: "Token list"
  result :: 'tree

text \<open>
  What the collector returns: \<^verbatim>\<open>candidates.rules\<close> and \<^verbatim>\<open>candidates.tokens\<close>, two
  \<^verbatim>\<open>Map\<close>s read through \<^verbatim>\<open>entries()\<close>. The second field is \<open>tokenEntries\<close>
  here, \<open>tokens\<close> being the field of the parsing result.
\<close>

record CandidateRule =
  startTokenIndex :: int
  ruleList :: "Rule list"

record FollowUpList =
  indexes :: "TokenType list"
  optional :: bool

record CandidatesCollection =
  rules :: "(Rule \<times> CandidateRule) list"
  tokenEntries :: "(TokenType \<times> FollowUpList) list"

text \<open>\<^verbatim>\<open>CypherTokenType\<close>: only the member \<^verbatim>\<open>keyword\<close> is named by the code.\<close>

datatype CypherTokenType = CypherTokenType_keyword | CypherTokenType_other nat

text \<open>Reading a property of \<^verbatim>\<open>undefined\<close> throws a \<^verbatim>\<open>TypeError\<close>.\<close>

datatype error = TypeError

section \<open>JavaScript primitives\<close>

text \<open>\<^verbatim>\<open>xs[i]\<close>: \<^verbatim>\<open>undefined\<close> outside the array, also for a negative index.\<close>

definition elemAt :: "'a list \<Rightarrow> int \<Rightarrow> 'a option" where
  "elemAt xs i = (if 0 \<le> i \<and> i < int (length xs) then Some (xs ! nat i) else None)"

text \<open>
  \<^verbatim>\<open>Array.prototype.join\<close>: the elements separated by \<open>sep\<close>, an
  \<^verbatim>\<open>undefined\<close> element rendered as the empty string.
\<close>

fun join :: "string \<Rightarrow> string option list \<Rightarrow> string" where
  "join sep [] = []"
| "join sep [x] = (case x of None \<Rightarrow> [] | Some s \<Rightarrow> s)"
| "join sep (x # y # ys) = (case x of None \<Rightarrow> [] | Some s \<Rightarrow> s) @ sep @ join sep (y # ys)"

text \<open>
  \<^verbatim>\<open>xs.concat(arg)\<close>: an array argument is spread, any other value (here
  \<^verbatim>\<open>undefined\<close>) is appended as one element.
\<close>

definition concat_js :: "string list \<Rightarrow> string list option \<Rightarrow> string option list" where
  "concat_js xs arg = map Some xs @ (case arg of None \<Rightarrow> [None] | Some ys \<Rightarrow> map Some ys)"

text \<open>\<^verbatim>\<open>Array.from(m.keys())\<close> of a \<^verbatim>\<open>Map\<close>.\<close>

definition keys :: "('k \<times> 'v) list \<Rightarrow> 'k list" where
  "keys m = map fst m"

text \<open>
  \<^verbatim>\<open>isDefined\<close> of \<^verbatim>\<open>../helpers\<close>, which the code imports: the value is not
  \<^verbatim>\<open>undefined\<close>.
\<close>

definition isDefined :: "'a option \<Rightarrow> bool" where
  "isDefined x = (x \<noteq> None)"

section \<open>Ancestry predicates\<close>

text \<open>
  \<^verbatim>\<open>findParent(node, condition)\<close> is imported from \<^verbatim>\<open>../helpers\<close>; here it is the
  parameter \<open>findParent\<close>. Its first argument may be \<^verbatim>\<open>undefined\<close>
  (\<^verbatim>\<open>inRelationshipType\<close> passes it the result of another search).
\<close>

type_synonym FindParent =
  "ParserRuleContext option \<Rightarrow> (ParserRuleContext \<Rightarrow> bool) \<Rightarrow> ParserRuleContext option"

definition isLabel :: "ParserRuleContext \<Rightarrow> bool" where
  "isLabel p = (ctxClass p = LabelExpression4Context \<or> ctxClass p = LabelExpression4IsContext)"

definition inLabel :: "FindParent \<Rightarrow> ParserRuleContext \<Rightarrow> bool" where
  "inLabel findParent stopNode =
     (let labelParent = findParent (Some stopNode) isLabel in isDefined labelParent)"

definition inNodeLabel :: "FindParent \<Rightarrow> ParserRuleContext \<Rightarrow> bool" where
  "inNodeLabel findParent stopNode =
     (let labelParent =
        findParent (findParent (Some stopNode) isLabel) (\<lambda>p. ctxClass p = NodePatternContext)
      in isDefined labelParent)"

definition inRelationshipType :: "FindParent \<Rightarrow> ParserRuleContext \<Rightarrow> bool" where
  "inRelationshipType findParent stopNode =
     (let relTypeParent =
        findParent (findParent (Some stopNode) isLabel)
          (\<lambda>p. ctxClass p = RelationshipPatternContext)
      in isDefined relTypeParent)"

definition parentExpression :: "FindParent \<Rightarrow> ParserRuleContext \<Rightarrow> ParserRuleContext option" where
  "parentExpression findParent stopNode =
     findParent (Some stopNode) (\<lambda>p. ctxClass p = Expression2Context)"

definition inProcedureName :: "FindParent \<Rightarrow> ParserRuleContext \<Rightarrow> bool" where
  "inProcedureName findParent stopNode =
     (let procParent = findParent (Some stopNode) (\<lambda>p. ctxClass p = ProcedureNameContext)
      in isDefined procParent)"

text \<open>
  Modelled from the spec: \<^verbatim>\<open>findParent\<close> is not in the sources. The spec describes
  the ancestor search as walking the parent chain from the parent of the node and
  returning the first ancestor that satisfies the predicate, or none. Only the
  concrete instances of the theorems below use this definition.
\<close>

fun findAncestor :: "ParserRuleContext \<Rightarrow> (ParserRuleContext \<Rightarrow> bool) \<Rightarrow> ParserRuleContext option" where
  "findAncestor (ParserRuleContext c t None) condition = None"
| "findAncestor (ParserRuleContext c t (Some p)) condition =
     (if condition p then Some p else findAncestor p condition)"

definition findParent_spec :: FindParent where
  "findParent_spec node condition =
     (case node of None \<Rightarrow> None | Some n \<Rightarrow> findAncestor n condition)"

section \<open>Catalog completions\<close>

text \<open>
  \<^verbatim>\<open>names.map((t) => ({label: t, kind}))\<close> on a catalog array that may be absent:
  calling \<^verbatim>\<open>map\<close> on \<^verbatim>\<open>undefined\<close> throws.
\<close>

definition mapItems :: "CompletionItemKind \<Rightarrow> string list option \<Rightarrow> error + CompletionItem list" where
  "mapItems k names =
     (case names of
        None \<Rightarrow> Inl TypeError
      | Some ns \<Rightarrow> Inr (map (\<lambda>t. \<lparr>label = Some t, kind = k\<rparr>) ns))"

definition autocompleteLabels :: "DbInfo \<Rightarrow> error + CompletionItem list" where
  "autocompleteLabels dbInfo = mapItems TypeParameter (labels dbInfo)"

definition autocompleteRelTypes :: "DbInfo \<Rightarrow> error + CompletionItem list" where
  "autocompleteRelTypes dbInfo = mapItems TypeParameter (relationshipTypes dbInfo)"

text \<open>\<^verbatim>\<open>functionName.startsWith(expr.getText())\<close> is \<open>prefix (getText expr) functionName\<close>.\<close>

definition autoCompleteFunctions :: "DbInfo \<Rightarrow> ParserRuleContext \<Rightarrow> error + CompletionItem list" where
  "autoCompleteFunctions dbInfo expr =
     mapItems Function
       (map_option (\<lambda>m. filter (\<lambda>functionName. prefix (getText expr) functionName) (keys m))
          (functionSignatures dbInfo))"

definition autoCompleteProcNames :: "DbInfo \<Rightarrow> error + CompletionItem list" where
  "autoCompleteProcNames dbInfo = mapItems Function (map_option keys (procedureSignatures dbInfo))"

section \<open>Structural fallback\<close>

text \<open>
  A function typed \<^verbatim>\<open>CompletionItem[] | undefined\<close> returns \<open>Inr None\<close> for
  \<^verbatim>\<open>undefined\<close> (no opinion), \<open>Inr (Some items)\<close> for an array and \<open>Inl TypeError\<close>
  when it throws.
\<close>

definition someItems :: "error + CompletionItem list \<Rightarrow> error + CompletionItem list option" where
  "someItems r = (case r of Inl e \<Rightarrow> Inl e | Inr items \<Rightarrow> Inr (Some items))"

definition autoCompleteStructurally ::
  "FindParent \<Rightarrow> ('tree \<Rightarrow> ParserRuleContext) \<Rightarrow> ('parser, 'tree) ParsingResult \<Rightarrow> DbInfo
     \<Rightarrow> error + CompletionItem list option" where
  "autoCompleteStructurally findParent findStopNode parsingResult dbInfo =
     (let toks = tokens parsingResult;
          tree = result parsingResult;
          lastTokenIndex = int (length toks) - 2;
          lastToken = elemAt toks lastTokenIndex;
          eof = elemAt toks (lastTokenIndex + 1)
      in if lastTokenIndex \<le> 0 then Inr None
         else (case eof of
             None \<Rightarrow> Inl TypeError
           | Some eofToken \<Rightarrow>
               if tokenText eofToken \<noteq> ''<EOF>'' then Inr (Some [])
               else (case lastToken of
                   None \<Rightarrow> Inl TypeError
                 | Some lastTok \<Rightarrow>
                     if tokenType lastTok = SPACE then Inr None
                     else
                       (let stopNode = findStopNode tree
                        in if inRelationshipType findParent stopNode
                           then someItems (autocompleteRelTypes dbInfo)
                           else
                             (let expr = parentExpression findParent stopNode
                              in (case expr of
                                    Some e \<Rightarrow> someItems (autoCompleteFunctions dbInfo e)
                                  | None \<Rightarrow>
                                      if inProcedureName findParent stopNode
                                      then someItems (autoCompleteProcNames dbInfo)
                                      else Inr None))))))"

text \<open>
  \<^verbatim>\<open>parserWrapper.parse\<close> is the parameter \<open>parse\<close>; the filler character is
  appended to the text before parsing.
\<close>

definition autoCompleteStructurallyAddingChar ::
  "FindParent \<Rightarrow> ('tree \<Rightarrow> ParserRuleContext) \<Rightarrow> (string \<Rightarrow> ('parser, 'tree) ParsingResult)
     \<Rightarrow> string \<Rightarrow> DbInfo \<Rightarrow> error + CompletionItem list option" where
  "autoCompleteStructurallyAddingChar findParent findStopNode parse textUntilPosition dbInfo =
     (let parsingResult = parse (textUntilPosition @ ''x'');
          toks = tokens parsingResult;
          tree = result parsingResult;
          lastTokenIndex = int (length toks) - 2;
          lastToken = elemAt toks lastTokenIndex
      in if lastTokenIndex \<le> 0 then Inr None
         else (case lastToken of
             None \<Rightarrow> Inl TypeError
           | Some lastTok \<Rightarrow>
               if tokenType lastTok = SPACE then Inr None
               else
                 (let stopNode = findStopNode tree
                  in if inRelationshipType findParent stopNode
                     then someItems (autocompleteRelTypes dbInfo)
                     else Inr None)))"

section \<open>Completion from the grammar candidates\<close>

text \<open>Sequencing of steps that may throw: the first \<^verbatim>\<open>TypeError\<close> ends the call.\<close>

definition andThen :: "error + 'a \<Rightarrow> ('a \<Rightarrow> error + 'b) \<Rightarrow> error + 'b" where
  "andThen m f = (case m of Inl e \<Rightarrow> Inl e | Inr x \<Rightarrow> f x)"

text \<open>
  The configuration handed to the collector. \<^verbatim>\<open>lexerSymbols\<close>, the table of token
  classes, and \<^verbatim>\<open>tokenNames\<close>, the table of display names, are imported from
  \<^verbatim>\<open>../lexerSymbols\<close>: parameters.
\<close>

definition preferredRules :: "Rule set" where
  "preferredRules =
     {RULE_unescapedSymbolicNameString, RULE_escapedSymbolicNameString, RULE_stringLiteral,
      RULE_symbolicLabelNameString, RULE_symbolicAliasName}"

definition ignoredTokens :: "(TokenType \<times> CypherTokenType) list \<Rightarrow> TokenType set" where
  "ignoredTokens lexerSymbols =
     insert EOF
       (set (map fst (filter (\<lambda>entry. snd entry \<noteq> CypherTokenType_keyword) lexerSymbols)))"

text \<open>
  \<^verbatim>\<open>new CodeCompletionCore(parser)\<close>, configured, then
  \<^verbatim>\<open>collectCandidates(caretIndex)\<close>: a function of the parser, the two sets and the
  caret index.
\<close>

type_synonym 'parser Collector =
  "'parser \<Rightarrow> Rule set \<Rightarrow> TokenType set \<Rightarrow> int \<Rightarrow> CandidatesCollection"

definition rulesCreatingNewAliasOrDb :: "Rule list" where
  "rulesCreatingNewAliasOrDb = [RULE_createAlias, RULE_createDatabase, RULE_createCompositeDatabase]"

definition rulesThatOnlyAcceptAlias :: "Rule list" where
  "rulesThatOnlyAcceptAlias = [RULE_dropAlias, RULE_alterAlias, RULE_showAliases]"

text \<open>
  The callback of \<^verbatim>\<open>flatMap\<close> over the rule candidates (lines 444 to 533). It
  returns an array, or \<^verbatim>\<open>null\<close> (\<open>Inr None\<close>); it throws when it reads an absent
  \<^verbatim>\<open>aliasNames\<close> or \<^verbatim>\<open>databaseNames\<close>. The three lists are the constants the
  callback closes over.
\<close>

definition ruleCompletion ::
  "Token list \<Rightarrow> DbInfo \<Rightarrow> CompletionItem list \<Rightarrow> CompletionItem list \<Rightarrow> CompletionItem list
     \<Rightarrow> Rule \<times> CandidateRule \<Rightarrow> error + CompletionItem list option" where
  "ruleCompletion toks dbInfo labelCompletions reltypeCompletions proceduresCompletions candidate =
     (case candidate of (ruleNumber, candidateRule) \<Rightarrow>
        if ruleNumber = RULE_unescapedSymbolicNameString \<or> ruleNumber = RULE_symbolicLabelNameString
        then
          if RULE_procedureName \<in> set (ruleList candidateRule) then Inr (Some proceduresCompletions)
          else if RULE_functionName \<in> set (ruleList candidateRule) then Inr (Some proceduresCompletions)
          else if RULE_relationshipPattern \<in> set (ruleList candidateRule)
            then Inr (Some reltypeCompletions)
          else if RULE_nodePattern \<in> set (ruleList candidateRule) then Inr (Some labelCompletions)
          else if RULE_labelExpression \<in> set (ruleList candidateRule)
            then Inr (Some (reltypeCompletions @ labelCompletions))
          else Inr None
        else if ruleNumber = RULE_symbolicAliasName then
          if map_option tokenType (elemAt toks (startTokenIndex candidateRule + 1)) = Some SPACE
          then Inr None
          else if list_ex (\<lambda>rule. rule \<in> set (ruleList candidateRule)) rulesCreatingNewAliasOrDb
          then Inr None
          else if list_ex (\<lambda>rule. rule \<in> set (ruleList candidateRule)) rulesThatOnlyAcceptAlias
          then andThen (mapItems Value (aliasNames dbInfo)) (\<lambda>items. Inr (Some items))
          else
            (case databaseNames dbInfo of
               None \<Rightarrow> Inl TypeError
             | Some dbs \<Rightarrow>
                 Inr (Some (map (\<lambda>databaseName. \<lparr>label = databaseName, kind = Value\<rparr>)
                              (concat_js dbs (aliasNames dbInfo)))))
        else Inr None)"

text \<open>
  \<^verbatim>\<open>flatMap\<close>: an array returned by the callback is spread, \<^verbatim>\<open>null\<close> is kept as
  one element; then \<^verbatim>\<open>filter((r) => r !== null)\<close>.
\<close>

fun flatMap :: "('a \<Rightarrow> error + 'b list option) \<Rightarrow> 'a list \<Rightarrow> error + 'b option list" where
  "flatMap f [] = Inr []"
| "flatMap f (x # xs) =
     andThen (f x) (\<lambda>r.
       andThen (flatMap f xs) (\<lambda>rest.
         Inr ((case r of None \<Rightarrow> [None] | Some ys \<Rightarrow> map Some ys) @ rest)))"

definition filterNotNull :: "'b option list \<Rightarrow> 'b list" where
  "filterNotNull xs = concat (map (\<lambda>r. case r of None \<Rightarrow> [] | Some x \<Rightarrow> [x]) xs)"

text \<open>
  Lines 420 to 534: the four catalog lists, in the order the code builds them
  (\<^verbatim>\<open>functionCompletions\<close> is built and not used), then \<^verbatim>\<open>ruleCompletions\<close>.
\<close>

definition ruleCompletions ::
  "Token list \<Rightarrow> DbInfo \<Rightarrow> (Rule \<times> CandidateRule) list \<Rightarrow> error + CompletionItem list" where
  "ruleCompletions toks dbInfo candidateRules =
     andThen (mapItems TypeParameter (labels dbInfo)) (\<lambda>labelCompletions.
     andThen (mapItems TypeParameter (relationshipTypes dbInfo)) (\<lambda>reltypeCompletions.
     andThen (mapItems Function (map_option keys (procedureSignatures dbInfo)))
       (\<lambda>proceduresCompletions.
     andThen (mapItems Function (map_option keys (functionSignatures dbInfo)))
       (\<lambda>functionCompletions.
     andThen
       (flatMap
          (ruleCompletion toks dbInfo labelCompletions reltypeCompletions proceduresCompletions)
          candidateRules)
       (\<lambda>flat. Inr (filterNotNull flat))))))"

text \<open>The callback of \<^verbatim>\<open>flatMap\<close> over the token candidates (lines 537 to 557).\<close>

definition tokenCandidate :: "(TokenType \<Rightarrow> string option) \<Rightarrow> TokenType \<times> FollowUpList \<Rightarrow> string list" where
  "tokenCandidate tokenNames entry =
     (case entry of (tokenNumber, followUpList) \<Rightarrow>
        (let firstToken = tokenNames tokenNumber;
             followUpString = join '' '' (map tokenNames (indexes followUpList))
         in (case firstToken of
               None \<Rightarrow> []
             | Some first \<Rightarrow>
                 if followUpString = [] then [first]
                 else
                   (let followUp = first @ '' '' @ followUpString
                    in if optional followUpList then [first, followUp] else [followUp]))))"

text \<open>
  Lines 536 to 562: the labels of all token candidates, each made a \<^verbatim>\<open>Keyword\<close>
  item.
\<close>

definition tokenCompletions ::
  "(TokenType \<Rightarrow> string option) \<Rightarrow> (TokenType \<times> FollowUpList) list \<Rightarrow> CompletionItem list" where
  "tokenCompletions tokenNames entries =
     (let tokenCandidates = concat (map (tokenCandidate tokenNames) entries)
      in map (\<lambda>t. \<lparr>label = Some t, kind = Keyword\<rparr>) tokenCandidates)"

text \<open>
  Line 392: the caret index, one more subtracted for the final end marker unless the
  array holds at most one token.
\<close>

definition caretIndexOf :: "Token list \<Rightarrow> int" where
  "caretIndexOf toks = (if int (length toks) > 1 then int (length toks) - 2 else 0)"

text \<open>
  \<^verbatim>\<open>completionCoreCompletion\<close> (lines 381 to 568): the collector is configured and
  asked for the candidates at the caret index, and the rule-derived items are returned
  ahead of the token-derived ones. The guard \<^verbatim>\<open>caretIndex >= 0\<close> and its
  \<^verbatim>\<open>else\<close> branch are kept as written.
\<close>

definition completionCoreCompletion ::
  "(TokenType \<Rightarrow> string option) \<Rightarrow> (TokenType \<times> CypherTokenType) list \<Rightarrow> 'parser Collector
     \<Rightarrow> ('parser, 'tree) ParsingResult \<Rightarrow> DbInfo \<Rightarrow> error + CompletionItem list" where
  "completionCoreCompletion tokenNames lexerSymbols collectCandidates parsingResult dbInfo =
     (let toks = tokens parsingResult;
          caretIndex = caretIndexOf toks
      in if caretIndex \<ge> 0 then
           (let candidates =
                  collectCandidates (parser parsingResult) preferredRules
                    (ignoredTokens lexerSymbols) caretIndex
            in andThen (ruleCompletions toks dbInfo (rules candidates)) (\<lambda>ruleItems.
                 Inr (ruleItems @ tokenCompletions tokenNames (tokenEntries candidates))))
         else Inr [])"

section \<open>Concrete inputs\<close>

text \<open>
  Catalogs, token streams, parse-tree nodes and collector reports on which the theorems
  below are instantiated. The catalogs are those of the test suite.
\<close>

text \<open>A snapshot with every catalog filled.\<close>

definition sampleDb :: DbInfo where
  "sampleDb =
     \<lparr>labels = Some [''Cat'', ''Person'', ''Dog''],
      relationshipTypes = Some [''KNOWS''],
      procedureSignatures = Some [(''foo.bar'', ''''), (''dbms.info'', ''''), (''db.info'', '''')],
      functionSignatures = Some [(''abs'', ''''), (''acos'', ''''), (''Abs'', '''')],
      databaseNames = Some [''neo4j'', ''system''],
      aliasNames = Some [''myalias'']\<rparr>"

text \<open>A table of display names with six keywords; every other token has none.\<close>

definition sampleTokenNames :: "TokenType \<Rightarrow> string option" where
  "sampleTokenNames t =
     (if t = OtherToken 10 then Some ''MATCH''
      else if t = OtherToken 11 then Some ''OPTIONAL''
      else if t = OtherToken 12 then Some ''CALL''
      else if t = OtherToken 13 then Some ''IF''
      else if t = OtherToken 14 then Some ''NOT''
      else if t = OtherToken 15 then Some ''EXISTS''
      else None)"

text \<open>A token that is not whitespace, with its text.\<close>

definition word :: "string \<Rightarrow> Token" where
  "word s = \<lparr>tokenType = OtherToken 1, tokenText = s\<rparr>"

text \<open>A whitespace token.\<close>

definition space :: Token where
  "space = \<lparr>tokenType = SPACE, tokenText = '' ''\<rparr>"

text \<open>The end marker as the lexer writes it.\<close>

definition eofToken :: Token where
  "eofToken = \<lparr>tokenType = EOF, tokenText = ''<EOF>''\<rparr>"

text \<open>A stop node inside a label expression of a relationship pattern.\<close>

definition relTypeNode :: ParserRuleContext where
  "relTypeNode =
     ParserRuleContext (OtherContext 1) ''R''
       (Some (ParserRuleContext LabelExpression4Context ''R''
         (Some (ParserRuleContext RelationshipPatternContext ''-[r:R'' None))))"

text \<open>A stop node under an expression whose text is \<^verbatim>\<open>ab\<close>.\<close>

definition expressionNode :: ParserRuleContext where
  "expressionNode =
     ParserRuleContext (OtherContext 2) ''ab''
       (Some (ParserRuleContext Expression2Context ''ab'' None))"

text \<open>A stop node inside a procedure name.\<close>

definition procedureNode :: ParserRuleContext where
  "procedureNode =
     ParserRuleContext (OtherContext 3) ''db''
       (Some (ParserRuleContext ProcedureNameContext ''db'' None))"

text \<open>A stop node with no ancestor.\<close>

definition plainNode :: ParserRuleContext where
  "plainNode = ParserRuleContext (OtherContext 4) ''n'' None"

text \<open>The tokens of \<^verbatim>\<open>RETURN ab\<close>: past every degradation check.\<close>

definition typedTokens :: "Token list" where
  "typedTokens = [word ''RETURN'', space, word ''ab'', eofToken]"

text \<open>
  A collector report for \<^verbatim>\<open>CALL db\<close>: two name candidates inside a procedure name,
  one candidate no branch matches, and the keywords \<^verbatim>\<open>MATCH\<close> and
  \<^verbatim>\<open>OPTIONAL MATCH\<close>.
\<close>

definition sampleCollector :: "unit Collector" where
  "sampleCollector p preferred ignored caretIndex =
     \<lparr>rules =
        [(RULE_unescapedSymbolicNameString, \<lparr>startTokenIndex = 2, ruleList = [RULE_procedureName]\<rparr>),
         (RULE_symbolicLabelNameString, \<lparr>startTokenIndex = 2, ruleList = [RULE_procedureName]\<rparr>),
         (RULE_stringLiteral, \<lparr>startTokenIndex = 2, ruleList = []\<rparr>)],
      tokenEntries =
        [(OtherToken 10, \<lparr>indexes = [], optional = False\<rparr>),
         (OtherToken 11, \<lparr>indexes = [OtherToken 10], optional = False\<rparr>)]\<rparr>"

text \<open>The snapshot of the label tests: three labels, every other catalog empty.\<close>

definition labelsOnlyDb :: DbInfo where
  "labelsOnlyDb =
     \<lparr>labels = Some [''Cat'', ''Person'', ''Dog''], relationshipTypes = Some [],
      procedureSignatures = Some [], functionSignatures = Some [],
      databaseNames = Some [], aliasNames = Some []\<rparr>"

text \<open>The tokens of \<^verbatim>\<open>MATCH (n:P\<close>.\<close>

definition matchLabelTokens :: "Token list" where
  "matchLabelTokens =
     [word ''MATCH'', space, word ''('', word ''n'', word '':'', word ''P'', eofToken]"

text \<open>
  A collector for \<^verbatim>\<open>MATCH (n:P\<close>: asked at caret index 5 with the label-name rule
  among the preferred rules, it reports one label-name candidate, started at the token
  \<^verbatim>\<open>P\<close>, inside a node pattern; otherwise it reports nothing.
\<close>

definition labelCollector :: "unit Collector" where
  "labelCollector p preferred ignored caretIndex =
     (if caretIndex = 5 \<and> RULE_symbolicLabelNameString \<in> preferred
      then \<lparr>rules = [(RULE_symbolicLabelNameString,
                 \<lparr>startTokenIndex = 5, ruleList = [RULE_nodePattern, RULE_labelExpression]\<rparr>)],
            tokenEntries = []\<rparr>
      else \<lparr>rules = [], tokenEntries = []\<rparr>)"

section \<open>Auxiliary lemmas\<close>

lemma elemAt_last:
  "xs \<noteq> [] \<Longrightarrow> elemAt xs (int (length xs) - 1) = Some (last xs)"
  by (simp add: elemAt_def last_conv_nth nat_diff_distrib')

lemma elemAt_before_last:
  "2 \<le> length xs \<Longrightarrow> elemAt xs (int (length xs) - 2) = Some (last (butlast xs))"
proof -
  assume h: "2 \<le> length xs"
  then have ne: "butlast xs \<noteq> []" by (cases xs) (auto split: if_splits)
  have idx: "nat (int (length xs) - 2) = length xs - 2" by simp
  have "last (butlast xs) = butlast xs ! (length (butlast xs) - 1)"
    using ne by (simp add: last_conv_nth)
  also have "\<dots> = xs ! (length xs - 2)"
    using h by (simp add: nth_butlast numeral_2_eq_2)
  finally show ?thesis using h by (simp add: elemAt_def idx)
qed

lemma structural_past_checks:
  assumes "2 < length (tokens parsingResult)"
    and "tokenText (last (tokens parsingResult)) = ''<EOF>''"
    and "tokenType (last (butlast (tokens parsingResult))) \<noteq> SPACE"
  shows "autoCompleteStructurally findParent findStopNode parsingResult dbInfo =
     (let stopNode = findStopNode (result parsingResult)
      in if inRelationshipType findParent stopNode
         then someItems (autocompleteRelTypes dbInfo)
         else (case parentExpression findParent stopNode of
                 Some e \<Rightarrow> someItems (autoCompleteFunctions dbInfo e)
               | None \<Rightarrow>
                   if inProcedureName findParent stopNode
                   then someItems (autoCompleteProcNames dbInfo)
                   else Inr None))"
proof -
  have ne: "tokens parsingResult \<noteq> []" using assms(1) by auto
  have e1: "elemAt (tokens parsingResult) (int (length (tokens parsingResult)) - 2 + 1)
              = Some (last (tokens parsingResult))"
    using elemAt_last [OF ne] by (simp add: algebra_simps)
  have e2: "elemAt (tokens parsingResult) (int (length (tokens parsingResult)) - 2)
              = Some (last (butlast (tokens parsingResult)))"
    using assms(1) by (intro elemAt_before_last) simp
  show ?thesis
    unfolding autoCompleteStructurally_def Let_def e1 e2
    using assms by simp
qed

lemma andThen_Inr [simp]: "andThen (Inr x) f = f x"
  by (simp add: andThen_def)

lemma andThen_Inl [simp]: "andThen (Inl e) f = Inl e"
  by (simp add: andThen_def)

lemma andThen_assoc_append:
  "andThen (andThen m (\<lambda>a. andThen n (\<lambda>b. Inr (a @ b)))) (\<lambda>ab. andThen k (\<lambda>c. Inr (ab @ c)))
   = andThen m (\<lambda>a. andThen (andThen n (\<lambda>b. andThen k (\<lambda>c. Inr (b @ c)))) (\<lambda>bc. Inr (a @ bc)))"
  by (cases m; cases n; cases k) simp_all

lemma flatMap_append:
  "flatMap f (xs @ ys) =
     andThen (flatMap f xs) (\<lambda>a. andThen (flatMap f ys) (\<lambda>b. Inr (a @ b)))"
proof (induction xs)
  case Nil
  show ?case by (cases "flatMap f ys") simp_all
next
  case (Cons x xs)
  show ?case
  proof (cases "f x")
    case (Inl e)
    then show ?thesis by simp
  next
    case (Inr r)
    then show ?thesis
      using Cons.IH by (cases "flatMap f xs"; cases "flatMap f ys") simp_all
  qed
qed

lemma filterNotNull_append [simp]:
  "filterNotNull (xs @ ys) = filterNotNull xs @ filterNotNull ys"
  by (simp add: filterNotNull_def)

lemma filterNotNull_Nil [simp]: "filterNotNull [] = []"
  by (simp add: filterNotNull_def)

lemma filterNotNull_null [simp]: "filterNotNull [None] = []"
  by (simp add: filterNotNull_def)

lemma filterNotNull_map_Some [simp]: "filterNotNull (map Some ys) = ys"
  by (induction ys) (simp_all add: filterNotNull_def)

lemma flatMap_single:
  "andThen (flatMap f [c]) (\<lambda>flat. Inr (filterNotNull flat))
     = andThen (f c) (\<lambda>r. Inr (case r of None \<Rightarrow> [] | Some ys \<Rightarrow> ys))"
  by (cases "f c") (auto split: option.splits)

lemma ruleCompletions_present:
  assumes "labels dbInfo = Some ls" and "relationshipTypes dbInfo = Some rs"
    and "procedureSignatures dbInfo = Some pm" and "functionSignatures dbInfo = Some fm"
  shows "ruleCompletions toks dbInfo cs =
     andThen
       (flatMap (ruleCompletion toks dbInfo
          (map (\<lambda>t. \<lparr>label = Some t, kind = TypeParameter\<rparr>) ls)
          (map (\<lambda>t. \<lparr>label = Some t, kind = TypeParameter\<rparr>) rs)
          (map (\<lambda>t. \<lparr>label = Some t, kind = Function\<rparr>) (map fst pm))) cs)
       (\<lambda>flat. Inr (filterNotNull flat))"
  using assms by (simp add: ruleCompletions_def mapItems_def keys_def)

lemma ruleCompletions_absent:
  assumes "labels dbInfo = None \<or> relationshipTypes dbInfo = None \<or>
           procedureSignatures dbInfo = None \<or> functionSignatures dbInfo = None"
  shows "ruleCompletions toks dbInfo cs = Inl TypeError"
  using assms by (auto simp: ruleCompletions_def mapItems_def split: option.splits)

lemma ruleCompletions_append:
  "ruleCompletions toks dbInfo (xs @ ys) =
     andThen (ruleCompletions toks dbInfo xs) (\<lambda>a.
       andThen (ruleCompletions toks dbInfo ys) (\<lambda>b. Inr (a @ b)))"
proof (cases "labels dbInfo = None \<or> relationshipTypes dbInfo = None \<or>
           procedureSignatures dbInfo = None \<or> functionSignatures dbInfo = None")
  case True
  then show ?thesis by (simp add: ruleCompletions_absent)
next
  case False
  then obtain ls rs pm fm where p: "labels dbInfo = Some ls" "relationshipTypes dbInfo = Some rs"
    "procedureSignatures dbInfo = Some pm" "functionSignatures dbInfo = Some fm"
    by auto
  show ?thesis
    unfolding ruleCompletions_present [OF p] flatMap_append
    by (cases "flatMap (ruleCompletion toks dbInfo
          (map (\<lambda>t. \<lparr>label = Some t, kind = TypeParameter\<rparr>) ls)
          (map (\<lambda>t. \<lparr>label = Some t, kind = TypeParameter\<rparr>) rs)
          (map (\<lambda>t. \<lparr>label = Some t, kind = Function\<rparr>) (map fst pm))) xs";
        cases "flatMap (ruleCompletion toks dbInfo
          (map (\<lambda>t. \<lparr>label = Some t, kind = TypeParameter\<rparr>) ls)
          (map (\<lambda>t. \<lparr>label = Some t, kind = TypeParameter\<rparr>) rs)
          (map (\<lambda>t. \<lparr>label = Some t, kind = Function\<rparr>) (map fst pm))) ys")
       simp_all
qed

lemma ruleCompletions_insert:
  "ruleCompletions toks dbInfo (before @ c # after) =
     andThen (ruleCompletions toks dbInfo before) (\<lambda>a.
       andThen (ruleCompletions toks dbInfo [c]) (\<lambda>m.
         andThen (ruleCompletions toks dbInfo after) (\<lambda>b. Inr (a @ m @ b))))"
proof -
  have "before @ c # after = before @ ([c] @ after)" by simp
  then have "ruleCompletions toks dbInfo (before @ c # after) =
     andThen (ruleCompletions toks dbInfo before) (\<lambda>a.
       andThen (andThen (ruleCompletions toks dbInfo [c]) (\<lambda>m.
         andThen (ruleCompletions toks dbInfo after) (\<lambda>b. Inr (m @ b)))) (\<lambda>mb. Inr (a @ mb)))"
    by (simp only: ruleCompletions_append)
  then show ?thesis
    by (cases "ruleCompletions toks dbInfo before"; cases "ruleCompletions toks dbInfo [c]";
        cases "ruleCompletions toks dbInfo after") simp_all
qed

lemma ruleCompletions_contribution:
  assumes "\<And>ls rs pm fm. labels dbInfo = Some ls \<Longrightarrow> relationshipTypes dbInfo = Some rs \<Longrightarrow>
      procedureSignatures dbInfo = Some pm \<Longrightarrow> functionSignatures dbInfo = Some fm \<Longrightarrow>
      ruleCompletion toks dbInfo
          (map (\<lambda>t. \<lparr>label = Some t, kind = TypeParameter\<rparr>) ls)
          (map (\<lambda>t. \<lparr>label = Some t, kind = TypeParameter\<rparr>) rs)
          (map (\<lambda>t. \<lparr>label = Some t, kind = Function\<rparr>) (map fst pm)) c = Inr r"
  shows "ruleCompletions toks dbInfo (before @ c # after) =
     andThen (ruleCompletions toks dbInfo before) (\<lambda>a.
       andThen (ruleCompletions toks dbInfo after) (\<lambda>b.
         Inr (a @ (case r of None \<Rightarrow> [] | Some ys \<Rightarrow> ys) @ b)))"
proof (cases "labels dbInfo = None \<or> relationshipTypes dbInfo = None \<or>
           procedureSignatures dbInfo = None \<or> functionSignatures dbInfo = None")
  case True
  then show ?thesis by (simp add: ruleCompletions_absent)
next
  case False
  then obtain ls rs pm fm where p: "labels dbInfo = Some ls" "relationshipTypes dbInfo = Some rs"
    "procedureSignatures dbInfo = Some pm" "functionSignatures dbInfo = Some fm"
    by auto
  have single: "ruleCompletions toks dbInfo [c] = Inr (case r of None \<Rightarrow> [] | Some ys \<Rightarrow> ys)"
    unfolding ruleCompletions_present [OF p] flatMap_single
    by (simp only: assms [OF p] andThen_Inr)
  show ?thesis
    unfolding ruleCompletions_insert [of toks dbInfo before c after] single
    by simp
qed

lemma ruleCompletions_dropped:
  assumes "\<And>lc rc pc. ruleCompletion toks dbInfo lc rc pc c = Inr None"
  shows "ruleCompletions toks dbInfo (before @ c # after) =
         ruleCompletions toks dbInfo (before @ after)"
proof -
  have "ruleCompletions toks dbInfo (before @ c # after) =
     andThen (ruleCompletions toks dbInfo before) (\<lambda>a.
       andThen (ruleCompletions toks dbInfo after) (\<lambda>b. Inr (a @ [] @ b)))"
    using ruleCompletions_contribution [of dbInfo toks c None before after] assms by simp
  also have "\<dots> = ruleCompletions toks dbInfo (before @ after)"
    by (simp add: ruleCompletions_append)
  finally show ?thesis .
qed

lemma alias_name_positions:
  "((\<exists>t. elemAt toks (startTokenIndex cr + 1) = Some t \<and> tokenType t = SPACE) \<longrightarrow>
      ruleCompletions toks dbInfo (before @ (RULE_symbolicAliasName, cr) # after)
        = ruleCompletions toks dbInfo (before @ after)) \<and>
   (\<not> (\<exists>t. elemAt toks (startTokenIndex cr + 1) = Some t \<and> tokenType t = SPACE) \<and>
    (RULE_createAlias \<in> set (ruleList cr) \<or> RULE_createDatabase \<in> set (ruleList cr) \<or>
     RULE_createCompositeDatabase \<in> set (ruleList cr)) \<longrightarrow>
      ruleCompletions toks dbInfo (before @ (RULE_symbolicAliasName, cr) # after)
        = ruleCompletions toks dbInfo (before @ after)) \<and>
   (\<not> (\<exists>t. elemAt toks (startTokenIndex cr + 1) = Some t \<and> tokenType t = SPACE) \<and>
    \<not> (RULE_createAlias \<in> set (ruleList cr) \<or> RULE_createDatabase \<in> set (ruleList cr) \<or>
     RULE_createCompositeDatabase \<in> set (ruleList cr)) \<and>
    (RULE_dropAlias \<in> set (ruleList cr) \<or> RULE_alterAlias \<in> set (ruleList cr) \<or>
     RULE_showAliases \<in> set (ruleList cr)) \<and>
    aliasNames dbInfo = Some aliases \<longrightarrow>
      ruleCompletions toks dbInfo (before @ (RULE_symbolicAliasName, cr) # after)
        = andThen (ruleCompletions toks dbInfo before) (\<lambda>a.
            andThen (ruleCompletions toks dbInfo after) (\<lambda>b.
              Inr (a @ map (\<lambda>name. \<lparr>label = Some name, kind = Value\<rparr>) aliases @ b)))) \<and>
   (\<not> (\<exists>t. elemAt toks (startTokenIndex cr + 1) = Some t \<and> tokenType t = SPACE) \<and>
    \<not> (RULE_createAlias \<in> set (ruleList cr) \<or> RULE_createDatabase \<in> set (ruleList cr) \<or>
     RULE_createCompositeDatabase \<in> set (ruleList cr)) \<and>
    \<not> (RULE_dropAlias \<in> set (ruleList cr) \<or> RULE_alterAlias \<in> set (ruleList cr) \<or>
     RULE_showAliases \<in> set (ruleList cr)) \<and>
    databaseNames dbInfo = Some dbs \<and> aliasNames dbInfo = Some aliases \<longrightarrow>
      ruleCompletions toks dbInfo (before @ (RULE_symbolicAliasName, cr) # after)
        = andThen (ruleCompletions toks dbInfo before) (\<lambda>a.
            andThen (ruleCompletions toks dbInfo after) (\<lambda>b.
              Inr (a @ map (\<lambda>name. \<lparr>label = Some name, kind = Value\<rparr>) (dbs @ aliases) @ b))))"
proof (intro conjI impI)
  assume "\<exists>t. elemAt toks (startTokenIndex cr + 1) = Some t \<and> tokenType t = SPACE"
  then have "\<And>lc rc pc. ruleCompletion toks dbInfo lc rc pc (RULE_symbolicAliasName, cr) = Inr None"
    by (auto simp: ruleCompletion_def)
  then show "ruleCompletions toks dbInfo (before @ (RULE_symbolicAliasName, cr) # after)
        = ruleCompletions toks dbInfo (before @ after)"
    by (rule ruleCompletions_dropped)
next
  assume "\<not> (\<exists>t. elemAt toks (startTokenIndex cr + 1) = Some t \<and> tokenType t = SPACE) \<and>
    (RULE_createAlias \<in> set (ruleList cr) \<or> RULE_createDatabase \<in> set (ruleList cr) \<or>
     RULE_createCompositeDatabase \<in> set (ruleList cr))"
  then have "\<And>lc rc pc. ruleCompletion toks dbInfo lc rc pc (RULE_symbolicAliasName, cr) = Inr None"
    by (auto simp: ruleCompletion_def rulesCreatingNewAliasOrDb_def)
  then show "ruleCompletions toks dbInfo (before @ (RULE_symbolicAliasName, cr) # after)
        = ruleCompletions toks dbInfo (before @ after)"
    by (rule ruleCompletions_dropped)
next
  assume h: "\<not> (\<exists>t. elemAt toks (startTokenIndex cr + 1) = Some t \<and> tokenType t = SPACE) \<and>
    \<not> (RULE_createAlias \<in> set (ruleList cr) \<or> RULE_createDatabase \<in> set (ruleList cr) \<or>
     RULE_createCompositeDatabase \<in> set (ruleList cr)) \<and>
    (RULE_dropAlias \<in> set (ruleList cr) \<or> RULE_alterAlias \<in> set (ruleList cr) \<or>
     RULE_showAliases \<in> set (ruleList cr)) \<and>
    aliasNames dbInfo = Some aliases"
  then have ns: "map_option tokenType (elemAt toks (startTokenIndex cr + 1)) \<noteq> Some SPACE"
    by auto
  have "\<And>lc rc pc. ruleCompletion toks dbInfo lc rc pc (RULE_symbolicAliasName, cr)
          = Inr (Some (map (\<lambda>name. \<lparr>label = Some name, kind = Value\<rparr>) aliases))"
    using h ns
    by (auto simp: ruleCompletion_def rulesCreatingNewAliasOrDb_def rulesThatOnlyAcceptAlias_def
        mapItems_def)
  then show "ruleCompletions toks dbInfo (before @ (RULE_symbolicAliasName, cr) # after)
        = andThen (ruleCompletions toks dbInfo before) (\<lambda>a.
            andThen (ruleCompletions toks dbInfo after) (\<lambda>b.
              Inr (a @ map (\<lambda>name. \<lparr>label = Some name, kind = Value\<rparr>) aliases @ b)))"
    using ruleCompletions_contribution [of dbInfo toks "(RULE_symbolicAliasName, cr)"
        "Some (map (\<lambda>name. \<lparr>label = Some name, kind = Value\<rparr>) aliases)" before after]
    by simp
next
  assume h: "\<not> (\<exists>t. elemAt toks (startTokenIndex cr + 1) = Some t \<and> tokenType t = SPACE) \<and>
    \<not> (RULE_createAlias \<in> set (ruleList cr) \<or> RULE_createDatabase \<in> set (ruleList cr) \<or>
     RULE_createCompositeDatabase \<in> set (ruleList cr)) \<and>
    \<not> (RULE_dropAlias \<in> set (ruleList cr) \<or> RULE_alterAlias \<in> set (ruleList cr) \<or>
     RULE_showAliases \<in> set (ruleList cr)) \<and>
    databaseNames dbInfo = Some dbs \<and> aliasNames dbInfo = Some aliases"
  then have ns: "map_option tokenType (elemAt toks (startTokenIndex cr + 1)) \<noteq> Some SPACE"
    by auto
  have "\<And>lc rc pc. ruleCompletion toks dbInfo lc rc pc (RULE_symbolicAliasName, cr)
          = Inr (Some (map (\<lambda>name. \<lparr>label = Some name, kind = Value\<rparr>) (dbs @ aliases)))"
    using h ns
    by (auto simp: ruleCompletion_def rulesCreatingNewAliasOrDb_def rulesThatOnlyAcceptAlias_def
        concat_js_def)
  then show "ruleCompletions toks dbInfo (before @ (RULE_symbolicAliasName, cr) # after)
        = andThen (ruleCompletions toks dbInfo before) (\<lambda>a.
            andThen (ruleCompletions toks dbInfo after) (\<lambda>b.
              Inr (a @ map (\<lambda>name. \<lparr>label = Some name, kind = Value\<rparr>) (dbs @ aliases) @ b)))"
    using ruleCompletions_contribution [of dbInfo toks "(RULE_symbolicAliasName, cr)"
        "Some (map (\<lambda>name. \<lparr>label = Some name, kind = Value\<rparr>) (dbs @ aliases))" before after]
    by simp
qed

lemma ruleCompletion_functionSignatures_irrelevant:
  "ruleCompletion toks (dbInfo\<lparr>functionSignatures := x\<rparr>) lc rc pc
     = ruleCompletion toks dbInfo lc rc pc"
proof
  fix c
  show "ruleCompletion toks (dbInfo\<lparr>functionSignatures := x\<rparr>) lc rc pc c
     = ruleCompletion toks dbInfo lc rc pc c"
    by (cases c) (auto simp: ruleCompletion_def split: option.splits)
qed

lemma procedure_name_positions:
  "((ruleNumber = RULE_unescapedSymbolicNameString \<or> ruleNumber = RULE_symbolicLabelNameString) \<and>
    (RULE_procedureName \<in> set (ruleList cr) \<or> RULE_functionName \<in> set (ruleList cr)) \<and>
    procedureSignatures dbInfo = Some pm \<longrightarrow>
      ruleCompletions toks dbInfo (before @ (ruleNumber, cr) # after)
        = andThen (ruleCompletions toks dbInfo before) (\<lambda>a.
            andThen (ruleCompletions toks dbInfo after) (\<lambda>b.
              Inr (a @ map (\<lambda>name. \<lparr>label = Some name, kind = Function\<rparr>) (map fst pm) @ b)))) \<and>
   ruleCompletions toks (dbInfo\<lparr>functionSignatures := Some fm\<rparr>) candidateRules
     = ruleCompletions toks (dbInfo\<lparr>functionSignatures := Some fm'\<rparr>) candidateRules"
proof (intro conjI impI)
  assume h: "(ruleNumber = RULE_unescapedSymbolicNameString \<or>
              ruleNumber = RULE_symbolicLabelNameString) \<and>
    (RULE_procedureName \<in> set (ruleList cr) \<or> RULE_functionName \<in> set (ruleList cr)) \<and>
    procedureSignatures dbInfo = Some pm"
  then have "\<And>lc rc pc. ruleCompletion toks dbInfo lc rc pc (ruleNumber, cr) = Inr (Some pc)"
    by (auto simp: ruleCompletion_def)
  then have "\<And>ls rs pm' fm. procedureSignatures dbInfo = Some pm' \<Longrightarrow>
      ruleCompletion toks dbInfo
          (map (\<lambda>t. \<lparr>label = Some t, kind = TypeParameter\<rparr>) ls)
          (map (\<lambda>t. \<lparr>label = Some t, kind = TypeParameter\<rparr>) rs)
          (map (\<lambda>t. \<lparr>label = Some t, kind = Function\<rparr>) (map fst pm')) (ruleNumber, cr)
        = Inr (Some (map (\<lambda>name. \<lparr>label = Some name, kind = Function\<rparr>) (map fst pm)))"
    using h by simp
  then show "ruleCompletions toks dbInfo (before @ (ruleNumber, cr) # after)
        = andThen (ruleCompletions toks dbInfo before) (\<lambda>a.
            andThen (ruleCompletions toks dbInfo after) (\<lambda>b.
              Inr (a @ map (\<lambda>name. \<lparr>label = Some name, kind = Function\<rparr>) (map fst pm) @ b)))"
    using ruleCompletions_contribution [of dbInfo toks "(ruleNumber, cr)"
        "Some (map (\<lambda>name. \<lparr>label = Some name, kind = Function\<rparr>) (map fst pm))" before after]
    by simp
next
  show "ruleCompletions toks (dbInfo\<lparr>functionSignatures := Some fm\<rparr>) candidateRules
     = ruleCompletions toks (dbInfo\<lparr>functionSignatures := Some fm'\<rparr>) candidateRules"
    by (simp add: ruleCompletions_def mapItems_def ruleCompletion_functionSignatures_irrelevant)
qed

lemma join_Nil_iff_named:
  assumes "xs \<noteq> []" and "\<forall>x\<in>set xs. \<exists>n. x = Some n \<and> n \<noteq> []"
  shows "join sep xs \<noteq> []"
proof (cases xs)
  case Nil
  with assms show ?thesis by simp
next
  case (Cons x ys)
  with assms obtain n where n: "x = Some n" "n \<noteq> []" by auto
  show ?thesis using Cons n by (cases ys) simp_all
qed

lemma tokenCandidate_cases:
  "(tokenNames t = None \<longrightarrow> tokenCandidate tokenNames (t, fu) = []) \<and>
   (tokenNames t = Some d \<and> indexes fu = [] \<longrightarrow> tokenCandidate tokenNames (t, fu) = [d]) \<and>
   (tokenNames t = Some d \<and> join '' '' (map tokenNames (indexes fu)) = [] \<longrightarrow>
      tokenCandidate tokenNames (t, fu) = [d]) \<and>
   (tokenNames t = Some d \<and> indexes fu \<noteq> [] \<and>
    (\<forall>i\<in>set (indexes fu). \<exists>n. tokenNames i = Some n \<and> n \<noteq> []) \<and> \<not> optional fu \<longrightarrow>
      tokenCandidate tokenNames (t, fu) = [d @ '' '' @ join '' '' (map tokenNames (indexes fu))] \<and>
      d \<notin> set (tokenCandidate tokenNames (t, fu))) \<and>
   (tokenNames t = Some d \<and> indexes fu \<noteq> [] \<and>
    (\<forall>i\<in>set (indexes fu). \<exists>n. tokenNames i = Some n \<and> n \<noteq> []) \<and> optional fu \<longrightarrow>
      tokenCandidate tokenNames (t, fu) = [d, d @ '' '' @ join '' '' (map tokenNames (indexes fu))]) \<and>
   (tokenNames t = Some d \<and> join '' '' (map tokenNames (indexes fu)) \<noteq> [] \<longrightarrow>
      tokenCandidate tokenNames (t, fu) =
        (if optional fu then [d, d @ '' '' @ join '' '' (map tokenNames (indexes fu))]
         else [d @ '' '' @ join '' '' (map tokenNames (indexes fu))])) \<and>
   tokenCompletions tokenNames entries =
     map (\<lambda>l. \<lparr>label = Some l, kind = Keyword\<rparr>) (concat (map (tokenCandidate tokenNames) entries))"
proof -
  have named: "join '' '' (map tokenNames (indexes fu)) \<noteq> []"
    if "indexes fu \<noteq> []" "\<forall>i\<in>set (indexes fu). \<exists>n. tokenNames i = Some n \<and> n \<noteq> []"
    using that by (intro join_Nil_iff_named) auto
  show ?thesis
    using named by (auto simp: tokenCandidate_def tokenCompletions_def Let_def)
qed

lemma caretIndexOf_nonneg: "0 \<le> caretIndexOf toks"
  by (simp add: caretIndexOf_def)

lemma completionCoreCompletion_unfold:
  "completionCoreCompletion tokenNames lexerSymbols collectCandidates parsingResult dbInfo =
     andThen
       (ruleCompletions (tokens parsingResult) dbInfo
          (rules (collectCandidates (parser parsingResult) preferredRules
                    (ignoredTokens lexerSymbols) (caretIndexOf (tokens parsingResult)))))
       (\<lambda>ruleItems. Inr (ruleItems @
          tokenCompletions tokenNames
            (tokenEntries (collectCandidates (parser parsingResult) preferredRules
                    (ignoredTokens lexerSymbols) (caretIndexOf (tokens parsingResult))))))"
  by (simp add: completionCoreCompletion_def Let_def caretIndexOf_nonneg)

lemma ruleCompletion_cases:
  assumes "ruleCompletion toks dbInfo lc rc pc c = Inr (Some ys)"
  shows "ys = pc \<or> ys = rc \<or> ys = lc \<or> ys = rc @ lc \<or> (\<forall>y\<in>set ys. kind y = Value)"
proof (cases c)
  case (Pair ruleNumber cr)
  show ?thesis
    using assms unfolding Pair ruleCompletion_def mapItems_def
    by (auto split: if_splits option.splits)
qed

lemma filterNotNull_Cons_None [simp]: "filterNotNull (None # xs) = filterNotNull xs"
  by (simp add: filterNotNull_def)

lemma filterNotNull_Cons_Some [simp]: "filterNotNull (Some x # xs) = x # filterNotNull xs"
  by (simp add: filterNotNull_def)

lemma flatMap_items:
  "flatMap f cs = Inr flat \<Longrightarrow>
     set (filterNotNull flat) = {y. \<exists>c\<in>set cs. \<exists>ys. f c = Inr (Some ys) \<and> y \<in> set ys}"
proof (induction cs arbitrary: flat)
  case Nil
  then show ?case by simp
next
  case (Cons c cs)
  from Cons.prems obtain r rest where r: "f c = Inr r" and rest: "flatMap f cs = Inr rest"
    and flat: "flat = (case r of None \<Rightarrow> [None] | Some ys \<Rightarrow> map Some ys) @ rest"
    by (cases "f c"; cases "flatMap f cs") auto
  have ih: "set (filterNotNull rest) =
      {y. \<exists>c\<in>set cs. \<exists>ys. f c = Inr (Some ys) \<and> y \<in> set ys}"
    using Cons.IH [OF rest] .
  show ?case
  proof (cases r)
    case None
    then show ?thesis using r flat ih by auto
  next
    case (Some ys)
    then show ?thesis using r flat ih by auto
  qed
qed

lemma flatMap_total:
  "\<forall>c\<in>set cs. \<exists>r. f c = Inr r \<Longrightarrow> \<exists>flat. flatMap f cs = Inr flat"
proof (induction cs)
  case Nil
  show ?case by simp
next
  case (Cons c cs)
  then obtain r rest where "f c = Inr r" "flatMap f cs = Inr rest" by auto
  then show ?case by simp
qed

lemma ruleCompletion_total:
  assumes "databaseNames dbInfo \<noteq> None" and "aliasNames dbInfo \<noteq> None"
  shows "\<exists>r. ruleCompletion toks dbInfo lc rc pc c = Inr r"
  using assms by (cases c) (auto simp: ruleCompletion_def mapItems_def)

lemma ruleCompletions_total:
  assumes "labels dbInfo \<noteq> None" and "relationshipTypes dbInfo \<noteq> None"
    and "procedureSignatures dbInfo \<noteq> None" and "functionSignatures dbInfo \<noteq> None"
    and "databaseNames dbInfo \<noteq> None" and "aliasNames dbInfo \<noteq> None"
  shows "\<exists>items. ruleCompletions toks dbInfo cs = Inr items"
proof -
  from assms obtain ls rs pm fm where p: "labels dbInfo = Some ls"
    "relationshipTypes dbInfo = Some rs" "procedureSignatures dbInfo = Some pm"
    "functionSignatures dbInfo = Some fm" by auto
  obtain flat where "flatMap (ruleCompletion toks dbInfo
          (map (\<lambda>t. \<lparr>label = Some t, kind = TypeParameter\<rparr>) ls)
          (map (\<lambda>t. \<lparr>label = Some t, kind = TypeParameter\<rparr>) rs)
          (map (\<lambda>t. \<lparr>label = Some t, kind = Function\<rparr>) (map fst pm))) cs = Inr flat"
    using flatMap_total ruleCompletion_total [OF assms(5,6)] by meson
  then show ?thesis
    unfolding ruleCompletions_present [OF p] by simp
qed

lemma ruleCompletions_Inr_present:
  assumes "ruleCompletions toks dbInfo cs = Inr items"
  shows "\<exists>ls rs pm fm. labels dbInfo = Some ls \<and> relationshipTypes dbInfo = Some rs \<and>
    procedureSignatures dbInfo = Some pm \<and> functionSignatures dbInfo = Some fm"
proof -
  have "\<not> (labels dbInfo = None \<or> relationshipTypes dbInfo = None \<or>
           procedureSignatures dbInfo = None \<or> functionSignatures dbInfo = None)"
  proof
    assume "labels dbInfo = None \<or> relationshipTypes dbInfo = None \<or>
           procedureSignatures dbInfo = None \<or> functionSignatures dbInfo = None"
    then have "ruleCompletions toks dbInfo cs = Inl TypeError"
      by (rule ruleCompletions_absent)
    with assms show False by simp
  qed
  then show ?thesis by auto
qed

lemma ruleCompletions_items:
  assumes "ruleCompletions toks dbInfo cs = Inr items"
    and "labels dbInfo = Some ls" and "relationshipTypes dbInfo = Some rs"
    and "procedureSignatures dbInfo = Some pm"
  shows "set items = {y. \<exists>c\<in>set cs. \<exists>ys.
        ruleCompletion toks dbInfo
          (map (\<lambda>t. \<lparr>label = Some t, kind = TypeParameter\<rparr>) ls)
          (map (\<lambda>t. \<lparr>label = Some t, kind = TypeParameter\<rparr>) rs)
          (map (\<lambda>t. \<lparr>label = Some t, kind = Function\<rparr>) (map fst pm)) c = Inr (Some ys)
        \<and> y \<in> set ys}"
proof -
  from ruleCompletions_Inr_present [OF assms(1)] obtain fm
    where fm: "functionSignatures dbInfo = Some fm" by auto
  note p = assms(2,3,4) fm
  let ?f = "ruleCompletion toks dbInfo
          (map (\<lambda>t. \<lparr>label = Some t, kind = TypeParameter\<rparr>) ls)
          (map (\<lambda>t. \<lparr>label = Some t, kind = TypeParameter\<rparr>) rs)
          (map (\<lambda>t. \<lparr>label = Some t, kind = Function\<rparr>) (map fst pm))"
  from assms(1) obtain flat where flat: "flatMap ?f cs = Inr flat"
    and items: "items = filterNotNull flat"
    unfolding ruleCompletions_present [OF p] by (cases "flatMap ?f cs") auto
  show ?thesis
    using flatMap_items [OF flat] items by simp
qed

lemma ruleCompletions_kinds:
  assumes "ruleCompletions toks dbInfo cs = Inr items" and "r \<in> set items"
  shows "kind r = Function \<or> kind r = TypeParameter \<or> kind r = Value"
proof -
  from ruleCompletions_Inr_present [OF assms(1)] obtain ls rs pm where
    p: "labels dbInfo = Some ls" "relationshipTypes dbInfo = Some rs"
       "procedureSignatures dbInfo = Some pm" by auto
  from assms(2) ruleCompletions_items [OF assms(1) p] obtain c ys where
    c: "ruleCompletion toks dbInfo
          (map (\<lambda>t. \<lparr>label = Some t, kind = TypeParameter\<rparr>) ls)
          (map (\<lambda>t. \<lparr>label = Some t, kind = TypeParameter\<rparr>) rs)
          (map (\<lambda>t. \<lparr>label = Some t, kind = Function\<rparr>) (map fst pm)) c = Inr (Some ys)"
    and r: "r \<in> set ys" by auto
  from ruleCompletion_cases [OF c] r show ?thesis by auto
qed

lemma tokenCompletions_kinds: "k \<in> set (tokenCompletions tokenNames entries) \<Longrightarrow> kind k = Keyword"
  by (auto simp: tokenCompletions_def)

lemma tokenCompletions_append:
  "tokenCompletions tokenNames (xs @ ys) =
     tokenCompletions tokenNames xs @ tokenCompletions tokenNames ys"
  by (simp add: tokenCompletions_def)

lemmas eval_defs = ruleCompletions_def ruleCompletion_def mapItems_def keys_def elemAt_def
  rulesCreatingNewAliasOrDb_def rulesThatOnlyAcceptAlias_def concat_js_def sampleDb_def
  word_def space_def eofToken_def

lemma autoCompleteStructurally_unfold:
  "autoCompleteStructurally findParent findStopNode parsingResult dbInfo =
     (if length (tokens parsingResult) \<le> 2 then Inr None
      else if tokenText (last (tokens parsingResult)) \<noteq> ''<EOF>'' then Inr (Some [])
      else if tokenType (last (butlast (tokens parsingResult))) = SPACE then Inr None
      else if inRelationshipType findParent (findStopNode (result parsingResult))
        then someItems (autocompleteRelTypes dbInfo)
      else (case parentExpression findParent (findStopNode (result parsingResult)) of
              Some e \<Rightarrow> someItems (autoCompleteFunctions dbInfo e)
            | None \<Rightarrow>
                if inProcedureName findParent (findStopNode (result parsingResult))
                then someItems (autoCompleteProcNames dbInfo)
                else Inr None))"
proof (cases "length (tokens parsingResult) \<le> 2")
  case True
  then show ?thesis by (simp add: autoCompleteStructurally_def Let_def)
next
  case False
  then have ne: "tokens parsingResult \<noteq> []" by auto
  have e1: "elemAt (tokens parsingResult) (int (length (tokens parsingResult)) - 2 + 1)
              = Some (last (tokens parsingResult))"
    using elemAt_last [OF ne] by (simp add: algebra_simps)
  have e2: "elemAt (tokens parsingResult) (int (length (tokens parsingResult)) - 2)
              = Some (last (butlast (tokens parsingResult)))"
    using False by (intro elemAt_before_last) simp
  show ?thesis
    unfolding autoCompleteStructurally_def Let_def e1 e2
    using False by simp
qed

lemma autoCompleteStructurallyAddingChar_unfold:
  "autoCompleteStructurallyAddingChar findParent findStopNode parse textUntilPosition dbInfo =
     (if length (tokens (parse (textUntilPosition @ ''x''))) \<le> 2 then Inr None
      else if tokenType (last (butlast (tokens (parse (textUntilPosition @ ''x''))))) = SPACE
        then Inr None
      else if inRelationshipType findParent
                (findStopNode (result (parse (textUntilPosition @ ''x''))))
        then someItems (autocompleteRelTypes dbInfo)
      else Inr None)"
proof (cases "length (tokens (parse (textUntilPosition @ ''x''))) \<le> 2")
  case True
  then show ?thesis by (simp add: autoCompleteStructurallyAddingChar_def Let_def)
next
  case False
  have e2: "elemAt (tokens (parse (textUntilPosition @ ''x'')))
              (int (length (tokens (parse (textUntilPosition @ ''x'')))) - 2)
              = Some (last (butlast (tokens (parse (textUntilPosition @ ''x'')))))"
    using False by (intro elemAt_before_last) simp
  show ?thesis
    unfolding autoCompleteStructurallyAddingChar_def Let_def e2
    using False by simp
qed

lemma structural_items:
  assumes "autoCompleteStructurally findParent findStopNode parsingResult dbInfo = Inr (Some found)"
    and "relationshipTypes dbInfo = Some rs"
  shows "found = [] \<or> found = map (\<lambda>t. \<lparr>label = Some t, kind = TypeParameter\<rparr>) rs \<or>
         (\<forall>x\<in>set found. kind x = Function)"
  using assms unfolding autoCompleteStructurally_unfold
  by (auto simp: someItems_def autocompleteRelTypes_def autoCompleteFunctions_def
      autoCompleteProcNames_def mapItems_def split: if_splits option.splits)

lemma structural_adding_char_items:
  assumes "autoCompleteStructurallyAddingChar findParent findStopNode parse text dbInfo
             = Inr (Some found)"
    and "relationshipTypes dbInfo = Some rs"
  shows "found = map (\<lambda>t. \<lparr>label = Some t, kind = TypeParameter\<rparr>) rs"
  using assms unfolding autoCompleteStructurallyAddingChar_unfold
  by (auto simp: someItems_def autocompleteRelTypes_def mapItems_def split: if_splits)

lemma structural_total:
  assumes "relationshipTypes dbInfo \<noteq> None" and "procedureSignatures dbInfo \<noteq> None"
    and "functionSignatures dbInfo \<noteq> None"
  shows "\<exists>r. autoCompleteStructurally findParent findStopNode parsingResult dbInfo = Inr r"
  using assms unfolding autoCompleteStructurally_unfold
  by (auto simp: someItems_def autocompleteRelTypes_def autoCompleteFunctions_def
      autoCompleteProcNames_def mapItems_def split: option.splits)

lemma structural_adding_char_total:
  assumes "relationshipTypes dbInfo \<noteq> None"
  shows "\<exists>r. autoCompleteStructurallyAddingChar findParent findStopNode parse text dbInfo = Inr r"
  using assms unfolding autoCompleteStructurallyAddingChar_unfold
  by (auto simp: someItems_def autocompleteRelTypes_def mapItems_def)

lemma label_item_brings_catalog:
  assumes rc: "ruleCompletions toks dbInfo cs = Inr ruleItems"
    and ls: "labels dbInfo = Some ls" and rs: "relationshipTypes dbInfo = Some rs"
    and n: "n \<notin> set rs"
    and x: "\<lparr>label = Some n, kind = TypeParameter\<rparr> \<in> set ruleItems"
  shows "set (map (\<lambda>t. \<lparr>label = Some t, kind = TypeParameter\<rparr>) ls) \<subseteq> set ruleItems"
proof -
  from ruleCompletions_Inr_present [OF rc] obtain pm where
    pm: "procedureSignatures dbInfo = Some pm" by auto
  let ?lc = "map (\<lambda>t. \<lparr>label = Some t, kind = TypeParameter\<rparr>) ls"
  let ?rc = "map (\<lambda>t. \<lparr>label = Some t, kind = TypeParameter\<rparr>) rs"
  let ?pc = "map (\<lambda>t. \<lparr>label = Some t, kind = Function\<rparr>) (map fst pm)"
  have s: "set ruleItems = {y. \<exists>c\<in>set cs. \<exists>ys.
      ruleCompletion toks dbInfo ?lc ?rc ?pc c = Inr (Some ys) \<and> y \<in> set ys}"
    by (rule ruleCompletions_items [OF rc ls rs pm])
  from x s obtain c ys where c: "c \<in> set cs"
    and r: "ruleCompletion toks dbInfo ?lc ?rc ?pc c = Inr (Some ys)"
    and xin: "\<lparr>label = Some n, kind = TypeParameter\<rparr> \<in> set ys" by auto
  have sub: "set ys \<subseteq> set ruleItems" using s c r by auto
  have notrc: "\<lparr>label = Some n, kind = TypeParameter\<rparr> \<notin> set ?rc" using n by auto
  have notpc: "\<lparr>label = Some n, kind = TypeParameter\<rparr> \<notin> set ?pc" by auto
  from ruleCompletion_cases [OF r] xin notrc notpc
  have "ys = ?lc \<or> ys = ?rc @ ?lc" by auto
  then have "set ?lc \<subseteq> set ys" by auto
  with sub show ?thesis by blast
qed

lemma label_catalog_facts:
  assumes "labels dbInfo = Some [''Cat'', ''Person'', ''Dog'']"
    and "relationshipTypes dbInfo = Some rs"
    and "''Person'' \<notin> set rs"
  shows
   "((ruleNumber = RULE_unescapedSymbolicNameString \<or> ruleNumber = RULE_symbolicLabelNameString) \<and>
     RULE_procedureName \<notin> set (ruleList cr) \<and> RULE_functionName \<notin> set (ruleList cr) \<and>
     RULE_relationshipPattern \<notin> set (ruleList cr) \<and> RULE_nodePattern \<in> set (ruleList cr) \<longrightarrow>
       ruleCompletions toks dbInfo (before @ (ruleNumber, cr) # after)
         = andThen (ruleCompletions toks dbInfo before) (\<lambda>a.
             andThen (ruleCompletions toks dbInfo after) (\<lambda>b.
               Inr (a @ [\<lparr>label = Some ''Cat'', kind = TypeParameter\<rparr>,
                         \<lparr>label = Some ''Person'', kind = TypeParameter\<rparr>,
                         \<lparr>label = Some ''Dog'', kind = TypeParameter\<rparr>] @ b)))) \<and>
    (completionCoreCompletion tokenNames lexerSymbols collectCandidates parsingResult dbInfo
       = Inr items \<and>
     \<lparr>label = Some ''Person'', kind = TypeParameter\<rparr> \<in> set items \<longrightarrow>
       \<lparr>label = Some ''Cat'', kind = TypeParameter\<rparr> \<in> set items \<and>
       \<lparr>label = Some ''Dog'', kind = TypeParameter\<rparr> \<in> set items) \<and>
    (completionCoreCompletion tokenNames lexerSymbols collectCandidates parsingResult dbInfo
       = Inr items \<longrightarrow>
       filter (\<lambda>i. kind i = Keyword) items =
         tokenCompletions tokenNames
           (tokenEntries (collectCandidates (parser parsingResult) preferredRules
              (ignoredTokens lexerSymbols) (caretIndexOf (tokens parsingResult))))) \<and>
    (autoCompleteStructurally findParent findStopNode parsingResult dbInfo = Inr (Some found) \<longrightarrow>
       \<lparr>label = Some ''Person'', kind = TypeParameter\<rparr> \<notin> set found) \<and>
    (autoCompleteStructurallyAddingChar findParent findStopNode parse textUntilPosition dbInfo
       = Inr (Some found) \<longrightarrow>
       \<lparr>label = Some ''Person'', kind = TypeParameter\<rparr> \<notin> set found)"
proof (intro conjI impI)
  assume h: "(ruleNumber = RULE_unescapedSymbolicNameString \<or>
              ruleNumber = RULE_symbolicLabelNameString) \<and>
     RULE_procedureName \<notin> set (ruleList cr) \<and> RULE_functionName \<notin> set (ruleList cr) \<and>
     RULE_relationshipPattern \<notin> set (ruleList cr) \<and> RULE_nodePattern \<in> set (ruleList cr)"
  then have "\<And>lc rc pc. ruleCompletion toks dbInfo lc rc pc (ruleNumber, cr) = Inr (Some lc)"
    by (auto simp: ruleCompletion_def)
  then have c: "ruleCompletion toks dbInfo
          (map (\<lambda>t. \<lparr>label = Some t, kind = TypeParameter\<rparr>) ls')
          (map (\<lambda>t. \<lparr>label = Some t, kind = TypeParameter\<rparr>) rs')
          (map (\<lambda>t. \<lparr>label = Some t, kind = Function\<rparr>) (map fst pm')) (ruleNumber, cr)
        = Inr (Some [\<lparr>label = Some ''Cat'', kind = TypeParameter\<rparr>,
                     \<lparr>label = Some ''Person'', kind = TypeParameter\<rparr>,
                     \<lparr>label = Some ''Dog'', kind = TypeParameter\<rparr>])"
    if "labels dbInfo = Some ls'" for ls' rs' pm'
    using that assms(1) by auto
  have "ruleCompletions toks dbInfo (before @ (ruleNumber, cr) # after)
         = andThen (ruleCompletions toks dbInfo before) (\<lambda>a.
             andThen (ruleCompletions toks dbInfo after) (\<lambda>b.
               Inr (a @ (case Some [\<lparr>label = Some ''Cat'', kind = TypeParameter\<rparr>,
                         \<lparr>label = Some ''Person'', kind = TypeParameter\<rparr>,
                         \<lparr>label = Some ''Dog'', kind = TypeParameter\<rparr>]
                         of None \<Rightarrow> [] | Some ys \<Rightarrow> ys) @ b)))"
    by (rule ruleCompletions_contribution) (rule c)
  then show "ruleCompletions toks dbInfo (before @ (ruleNumber, cr) # after)
         = andThen (ruleCompletions toks dbInfo before) (\<lambda>a.
             andThen (ruleCompletions toks dbInfo after) (\<lambda>b.
               Inr (a @ [\<lparr>label = Some ''Cat'', kind = TypeParameter\<rparr>,
                         \<lparr>label = Some ''Person'', kind = TypeParameter\<rparr>,
                         \<lparr>label = Some ''Dog'', kind = TypeParameter\<rparr>] @ b)))"
    by simp
next
  let ?cands = "collectCandidates (parser parsingResult) preferredRules
              (ignoredTokens lexerSymbols) (caretIndexOf (tokens parsingResult))"
  assume h: "completionCoreCompletion tokenNames lexerSymbols collectCandidates parsingResult
       dbInfo = Inr items \<and>
     \<lparr>label = Some ''Person'', kind = TypeParameter\<rparr> \<in> set items"
  then obtain ruleItems where
    r: "ruleCompletions (tokens parsingResult) dbInfo (rules ?cands) = Inr ruleItems"
    and i: "items = ruleItems @ tokenCompletions tokenNames (tokenEntries ?cands)"
    unfolding completionCoreCompletion_unfold
    by (cases "ruleCompletions (tokens parsingResult) dbInfo (rules ?cands)") auto
  have "\<lparr>label = Some ''Person'', kind = TypeParameter\<rparr>
          \<notin> set (tokenCompletions tokenNames (tokenEntries ?cands))"
    using tokenCompletions_kinds by fastforce
  with h i have "\<lparr>label = Some ''Person'', kind = TypeParameter\<rparr> \<in> set ruleItems" by simp
  from label_item_brings_catalog [OF r assms(1,2,3) this] i
  show "\<lparr>label = Some ''Cat'', kind = TypeParameter\<rparr> \<in> set items"
    and "\<lparr>label = Some ''Dog'', kind = TypeParameter\<rparr> \<in> set items" by simp_all
next
  let ?cands = "collectCandidates (parser parsingResult) preferredRules
              (ignoredTokens lexerSymbols) (caretIndexOf (tokens parsingResult))"
  assume h: "completionCoreCompletion tokenNames lexerSymbols collectCandidates parsingResult
       dbInfo = Inr items"
  then obtain ruleItems where
    r: "ruleCompletions (tokens parsingResult) dbInfo (rules ?cands) = Inr ruleItems"
    and i: "items = ruleItems @ tokenCompletions tokenNames (tokenEntries ?cands)"
    unfolding completionCoreCompletion_unfold
    by (cases "ruleCompletions (tokens parsingResult) dbInfo (rules ?cands)") auto
  have a: "filter (\<lambda>i. kind i = Keyword) ruleItems = []"
    using ruleCompletions_kinds [OF r] by (fastforce simp: filter_empty_conv)
  have b: "filter (\<lambda>i. kind i = Keyword) (tokenCompletions tokenNames (tokenEntries ?cands))
             = tokenCompletions tokenNames (tokenEntries ?cands)"
    using tokenCompletions_kinds by (auto simp: filter_id_conv)
  show "filter (\<lambda>i. kind i = Keyword) items = tokenCompletions tokenNames (tokenEntries ?cands)"
    using a b i by simp
next
  assume "autoCompleteStructurally findParent findStopNode parsingResult dbInfo
            = Inr (Some found)"
  from structural_items [OF this assms(2)] assms(3)
  show "\<lparr>label = Some ''Person'', kind = TypeParameter\<rparr> \<notin> set found" by auto
next
  assume "autoCompleteStructurallyAddingChar findParent findStopNode parse textUntilPosition
            dbInfo = Inr (Some found)"
  from structural_adding_char_items [OF this assms(2)] assms(3)
  show "\<lparr>label = Some ''Person'', kind = TypeParameter\<rparr> \<notin> set found" by auto
qed

lemma catalogs_present_or_absent:
  "(labels dbInfo \<noteq> None \<and> relationshipTypes dbInfo \<noteq> None \<and>
    procedureSignatures dbInfo \<noteq> None \<and> functionSignatures dbInfo \<noteq> None \<and>
    databaseNames dbInfo \<noteq> None \<and> aliasNames dbInfo \<noteq> None \<longrightarrow>
      (\<exists>items. completionCoreCompletion tokenNames lexerSymbols collectCandidates
                  parsingResult dbInfo = Inr items) \<and>
      (\<exists>r. autoCompleteStructurally findParent findStopNode parsingResult dbInfo = Inr r) \<and>
      (\<exists>r. autoCompleteStructurallyAddingChar findParent findStopNode parse textUntilPosition
              dbInfo = Inr r)) \<and>
   (labels dbInfo = None \<or> relationshipTypes dbInfo = None \<or>
    procedureSignatures dbInfo = None \<or> functionSignatures dbInfo = None \<longrightarrow>
      completionCoreCompletion tokenNames lexerSymbols collectCandidates parsingResult dbInfo
        = Inl TypeError)"
proof (intro conjI impI)
  assume h: "labels dbInfo \<noteq> None \<and> relationshipTypes dbInfo \<noteq> None \<and>
    procedureSignatures dbInfo \<noteq> None \<and> functionSignatures dbInfo \<noteq> None \<and>
    databaseNames dbInfo \<noteq> None \<and> aliasNames dbInfo \<noteq> None"
  then obtain ruleItems where "ruleCompletions (tokens parsingResult) dbInfo
     (rules (collectCandidates (parser parsingResult) preferredRules
              (ignoredTokens lexerSymbols) (caretIndexOf (tokens parsingResult)))) = Inr ruleItems"
    using ruleCompletions_total by blast
  then show "\<exists>items. completionCoreCompletion tokenNames lexerSymbols collectCandidates
                  parsingResult dbInfo = Inr items"
    unfolding completionCoreCompletion_unfold by simp
  show "\<exists>r. autoCompleteStructurally findParent findStopNode parsingResult dbInfo = Inr r"
    using h by (intro structural_total) simp_all
  show "\<exists>r. autoCompleteStructurallyAddingChar findParent findStopNode parse textUntilPosition
              dbInfo = Inr r"
    using h by (intro structural_adding_char_total) simp
next
  assume "labels dbInfo = None \<or> relationshipTypes dbInfo = None \<or>
    procedureSignatures dbInfo = None \<or> functionSignatures dbInfo = None"
  then show "completionCoreCompletion tokenNames lexerSymbols collectCandidates parsingResult
      dbInfo = Inl TypeError"
    unfolding completionCoreCompletion_unfold by (simp add: ruleCompletions_absent)
qed

lemma ruleCompletions_Nil:
  assumes "labels dbInfo \<noteq> None" and "relationshipTypes dbInfo \<noteq> None"
    and "procedureSignatures dbInfo \<noteq> None" and "functionSignatures dbInfo \<noteq> None"
  shows "ruleCompletions toks dbInfo [] = Inr []"
  using assms by (auto simp: ruleCompletions_def mapItems_def)

lemma ruleCompletions_Inr_Nil:
  assumes "ruleCompletions toks dbInfo cs = Inr found"
  shows "ruleCompletions toks dbInfo [] = Inr []"
  using ruleCompletions_Inr_present [OF assms] by (intro ruleCompletions_Nil) auto

lemma ruleCompletions_single_error:
  assumes "labels dbInfo = Some ls" and "relationshipTypes dbInfo = Some rs"
    and "procedureSignatures dbInfo = Some pm" and "functionSignatures dbInfo = Some fm"
    and "ruleCompletion toks dbInfo
          (map (\<lambda>t. \<lparr>label = Some t, kind = TypeParameter\<rparr>) ls)
          (map (\<lambda>t. \<lparr>label = Some t, kind = TypeParameter\<rparr>) rs)
          (map (\<lambda>t. \<lparr>label = Some t, kind = Function\<rparr>) (map fst pm)) c = Inl e"
  shows "ruleCompletions toks dbInfo [c] = Inl e"
  unfolding ruleCompletions_present [OF assms(1-4)] flatMap_single
  by (simp only: assms(5) andThen_Inl)

lemma ruleCompletions_single:
  assumes "labels dbInfo = Some ls" and "relationshipTypes dbInfo = Some rs"
    and "procedureSignatures dbInfo = Some pm" and "functionSignatures dbInfo = Some fm"
    and "ruleCompletion toks dbInfo
          (map (\<lambda>t. \<lparr>label = Some t, kind = TypeParameter\<rparr>) ls)
          (map (\<lambda>t. \<lparr>label = Some t, kind = TypeParameter\<rparr>) rs)
          (map (\<lambda>t. \<lparr>label = Some t, kind = Function\<rparr>) (map fst pm)) c = Inr r"
  shows "ruleCompletions toks dbInfo [c] = Inr (case r of None \<Rightarrow> [] | Some ys \<Rightarrow> ys)"
  unfolding ruleCompletions_present [OF assms(1-4)] flatMap_single
  by (simp only: assms(5) andThen_Inr)

section \<open>The claims\<close>

subsection \<open>Alias and database names\<close>

text \<open>
  Claim C1. A candidate for the rule \<^verbatim>\<open>symbolicAliasName\<close> is dispatched in this order,
  first match wins. When the token after its start-token index is a whitespace token, or
  else when its stack holds \<^verbatim>\<open>createAlias\<close>, \<^verbatim>\<open>createDatabase\<close> or
  \<^verbatim>\<open>createCompositeDatabase\<close>, the candidate contributes nothing: at any place of the
  list of rule candidates the rule-derived items are those of the list without it,
  whatever the catalogs hold, and alone it yields the empty list. Else, when its stack
  holds \<^verbatim>\<open>dropAlias\<close>, \<^verbatim>\<open>alterAlias\<close> or \<^verbatim>\<open>showAliases\<close>, it yields exactly
  one \<open>Value\<close> item per alias name. Otherwise it yields exactly one \<open>Value\<close> item
  per name of the database names followed by the alias names. In both emitting cases
  the items are returned: alone, when the four catalogs that every call reads are
  present, and at any place of the list, between the items of the candidates before it
  and those of the candidates after it.
\<close>

theorem alias_name_dispatch:
  "((\<exists>t. elemAt toks (startTokenIndex cr + 1) = Some t \<and> tokenType t = SPACE) \<longrightarrow>
      ruleCompletions toks dbInfo (before @ (RULE_symbolicAliasName, cr) # after)
        = ruleCompletions toks dbInfo (before @ after)) \<and>
   (\<not> (\<exists>t. elemAt toks (startTokenIndex cr + 1) = Some t \<and> tokenType t = SPACE) \<and>
    (RULE_createAlias \<in> set (ruleList cr) \<or> RULE_createDatabase \<in> set (ruleList cr) \<or>
     RULE_createCompositeDatabase \<in> set (ruleList cr)) \<longrightarrow>
      ruleCompletions toks dbInfo (before @ (RULE_symbolicAliasName, cr) # after)
        = ruleCompletions toks dbInfo (before @ after)) \<and>
   (((\<exists>t. elemAt toks (startTokenIndex cr + 1) = Some t \<and> tokenType t = SPACE) \<or>
     RULE_createAlias \<in> set (ruleList cr) \<or> RULE_createDatabase \<in> set (ruleList cr) \<or>
     RULE_createCompositeDatabase \<in> set (ruleList cr)) \<and>
    labels dbInfo \<noteq> None \<and> relationshipTypes dbInfo \<noteq> None \<and>
    procedureSignatures dbInfo \<noteq> None \<and> functionSignatures dbInfo \<noteq> None \<longrightarrow>
      ruleCompletions toks dbInfo [(RULE_symbolicAliasName, cr)] = Inr []) \<and>
   (\<not> (\<exists>t. elemAt toks (startTokenIndex cr + 1) = Some t \<and> tokenType t = SPACE) \<and>
    \<not> (RULE_createAlias \<in> set (ruleList cr) \<or> RULE_createDatabase \<in> set (ruleList cr) \<or>
     RULE_createCompositeDatabase \<in> set (ruleList cr)) \<and>
    (RULE_dropAlias \<in> set (ruleList cr) \<or> RULE_alterAlias \<in> set (ruleList cr) \<or>
     RULE_showAliases \<in> set (ruleList cr)) \<and>
    labels dbInfo \<noteq> None \<and> relationshipTypes dbInfo \<noteq> None \<and>
    procedureSignatures dbInfo \<noteq> None \<and> functionSignatures dbInfo \<noteq> None \<and>
    aliasNames dbInfo = Some aliases \<longrightarrow>
      ruleCompletions toks dbInfo [(RULE_symbolicAliasName, cr)]
        = Inr (map (\<lambda>name. \<lparr>label = Some name, kind = Value\<rparr>) aliases)) \<and>
   (\<not> (\<exists>t. elemAt toks (startTokenIndex cr + 1) = Some t \<and> tokenType t = SPACE) \<and>
    \<not> (RULE_createAlias \<in> set (ruleList cr) \<or> RULE_createDatabase \<in> set (ruleList cr) \<or>
     RULE_createCompositeDatabase \<in> set (ruleList cr)) \<and>
    (RULE_dropAlias \<in> set (ruleList cr) \<or> RULE_alterAlias \<in> set (ruleList cr) \<or>
     RULE_showAliases \<in> set (ruleList cr)) \<and>
    aliasNames dbInfo = Some aliases \<and>
    ruleCompletions toks dbInfo before = Inr itemsBefore \<and>
    ruleCompletions toks dbInfo after = Inr itemsAfter \<longrightarrow>
      ruleCompletions toks dbInfo (before @ (RULE_symbolicAliasName, cr) # after)
        = Inr (itemsBefore @ map (\<lambda>name. \<lparr>label = Some name, kind = Value\<rparr>) aliases
                 @ itemsAfter)) \<and>
   (\<not> (\<exists>t. elemAt toks (startTokenIndex cr + 1) = Some t \<and> tokenType t = SPACE) \<and>
    \<not> (RULE_createAlias \<in> set (ruleList cr) \<or> RULE_createDatabase \<in> set (ruleList cr) \<or>
     RULE_createCompositeDatabase \<in> set (ruleList cr)) \<and>
    \<not> (RULE_dropAlias \<in> set (ruleList cr) \<or> RULE_alterAlias \<in> set (ruleList cr) \<or>
     RULE_showAliases \<in> set (ruleList cr)) \<and>
    labels dbInfo \<noteq> None \<and> relationshipTypes dbInfo \<noteq> None \<and>
    procedureSignatures dbInfo \<noteq> None \<and> functionSignatures dbInfo \<noteq> None \<and>
    databaseNames dbInfo = Some dbs \<and> aliasNames dbInfo = Some aliases \<longrightarrow>
      ruleCompletions toks dbInfo [(RULE_symbolicAliasName, cr)]
        = Inr (map (\<lambda>name. \<lparr>label = Some name, kind = Value\<rparr>) (dbs @ aliases))) \<and>
   (\<not> (\<exists>t. elemAt toks (startTokenIndex cr + 1) = Some t \<and> tokenType t = SPACE) \<and>
    \<not> (RULE_createAlias \<in> set (ruleList cr) \<or> RULE_createDatabase \<in> set (ruleList cr) \<or>
     RULE_createCompositeDatabase \<in> set (ruleList cr)) \<and>
    \<not> (RULE_dropAlias \<in> set (ruleList cr) \<or> RULE_alterAlias \<in> set (ruleList cr) \<or>
     RULE_showAliases \<in> set (ruleList cr)) \<and>
    databaseNames dbInfo = Some dbs \<and> aliasNames dbInfo = Some aliases \<and>
    ruleCompletions toks dbInfo before = Inr itemsBefore \<and>
    ruleCompletions toks dbInfo after = Inr itemsAfter \<longrightarrow>
      ruleCompletions toks dbInfo (before @ (RULE_symbolicAliasName, cr) # after)
        = Inr (itemsBefore @ map (\<lambda>name. \<lparr>label = Some name, kind = Value\<rparr>) (dbs @ aliases)
                 @ itemsAfter))"
proof -
  note pos = alias_name_positions [of toks cr dbInfo]
  have nil: "ruleCompletions toks dbInfo [] = Inr []"
    if "labels dbInfo \<noteq> None \<and> relationshipTypes dbInfo \<noteq> None \<and>
        procedureSignatures dbInfo \<noteq> None \<and> functionSignatures dbInfo \<noteq> None"
    using that by (intro ruleCompletions_Nil) simp_all
  show ?thesis
  proof (intro conjI impI)
    assume "\<exists>t. elemAt toks (startTokenIndex cr + 1) = Some t \<and> tokenType t = SPACE"
    then show "ruleCompletions toks dbInfo (before @ (RULE_symbolicAliasName, cr) # after)
        = ruleCompletions toks dbInfo (before @ after)"
      using pos [of before after] by blast
  next
    assume "\<not> (\<exists>t. elemAt toks (startTokenIndex cr + 1) = Some t \<and> tokenType t = SPACE) \<and>
      (RULE_createAlias \<in> set (ruleList cr) \<or> RULE_createDatabase \<in> set (ruleList cr) \<or>
       RULE_createCompositeDatabase \<in> set (ruleList cr))"
    then show "ruleCompletions toks dbInfo (before @ (RULE_symbolicAliasName, cr) # after)
        = ruleCompletions toks dbInfo (before @ after)"
      using pos [of before after] by blast
  next
    assume h: "((\<exists>t. elemAt toks (startTokenIndex cr + 1) = Some t \<and> tokenType t = SPACE) \<or>
       RULE_createAlias \<in> set (ruleList cr) \<or> RULE_createDatabase \<in> set (ruleList cr) \<or>
       RULE_createCompositeDatabase \<in> set (ruleList cr)) \<and>
      labels dbInfo \<noteq> None \<and> relationshipTypes dbInfo \<noteq> None \<and>
      procedureSignatures dbInfo \<noteq> None \<and> functionSignatures dbInfo \<noteq> None"
    then have "ruleCompletions toks dbInfo ([] @ (RULE_symbolicAliasName, cr) # [])
        = ruleCompletions toks dbInfo ([] @ [])"
      using pos [of "[]" "[]"] by blast
    then show "ruleCompletions toks dbInfo [(RULE_symbolicAliasName, cr)] = Inr []"
      using nil h by simp
  next
    assume h: "\<not> (\<exists>t. elemAt toks (startTokenIndex cr + 1) = Some t \<and> tokenType t = SPACE) \<and>
      \<not> (RULE_createAlias \<in> set (ruleList cr) \<or> RULE_createDatabase \<in> set (ruleList cr) \<or>
       RULE_createCompositeDatabase \<in> set (ruleList cr)) \<and>
      (RULE_dropAlias \<in> set (ruleList cr) \<or> RULE_alterAlias \<in> set (ruleList cr) \<or>
       RULE_showAliases \<in> set (ruleList cr)) \<and>
      labels dbInfo \<noteq> None \<and> relationshipTypes dbInfo \<noteq> None \<and>
      procedureSignatures dbInfo \<noteq> None \<and> functionSignatures dbInfo \<noteq> None \<and>
      aliasNames dbInfo = Some aliases"
    then have "ruleCompletions toks dbInfo ([] @ (RULE_symbolicAliasName, cr) # [])
        = andThen (ruleCompletions toks dbInfo []) (\<lambda>a.
            andThen (ruleCompletions toks dbInfo []) (\<lambda>b.
              Inr (a @ map (\<lambda>name. \<lparr>label = Some name, kind = Value\<rparr>) aliases @ b)))"
      using pos [of "[]" "[]" aliases] by blast
    then show "ruleCompletions toks dbInfo [(RULE_symbolicAliasName, cr)]
        = Inr (map (\<lambda>name. \<lparr>label = Some name, kind = Value\<rparr>) aliases)"
      using nil h by simp
  next
    assume h: "\<not> (\<exists>t. elemAt toks (startTokenIndex cr + 1) = Some t \<and> tokenType t = SPACE) \<and>
      \<not> (RULE_createAlias \<in> set (ruleList cr) \<or> RULE_createDatabase \<in> set (ruleList cr) \<or>
       RULE_createCompositeDatabase \<in> set (ruleList cr)) \<and>
      (RULE_dropAlias \<in> set (ruleList cr) \<or> RULE_alterAlias \<in> set (ruleList cr) \<or>
       RULE_showAliases \<in> set (ruleList cr)) \<and>
      aliasNames dbInfo = Some aliases \<and>
      ruleCompletions toks dbInfo before = Inr itemsBefore \<and>
      ruleCompletions toks dbInfo after = Inr itemsAfter"
    then have "ruleCompletions toks dbInfo (before @ (RULE_symbolicAliasName, cr) # after)
        = andThen (ruleCompletions toks dbInfo before) (\<lambda>a.
            andThen (ruleCompletions toks dbInfo after) (\<lambda>b.
              Inr (a @ map (\<lambda>name. \<lparr>label = Some name, kind = Value\<rparr>) aliases @ b)))"
      using pos [of before after aliases] by blast
    then show "ruleCompletions toks dbInfo (before @ (RULE_symbolicAliasName, cr) # after)
        = Inr (itemsBefore @ map (\<lambda>name. \<lparr>label = Some name, kind = Value\<rparr>) aliases
                 @ itemsAfter)"
      using h by simp
  next
    assume h: "\<not> (\<exists>t. elemAt toks (startTokenIndex cr + 1) = Some t \<and> tokenType t = SPACE) \<and>
      \<not> (RULE_createAlias \<in> set (ruleList cr) \<or> RULE_createDatabase \<in> set (ruleList cr) \<or>
       RULE_createCompositeDatabase \<in> set (ruleList cr)) \<and>
      \<not> (RULE_dropAlias \<in> set (ruleList cr) \<or> RULE_alterAlias \<in> set (ruleList cr) \<or>
       RULE_showAliases \<in> set (ruleList cr)) \<and>
      labels dbInfo \<noteq> None \<and> relationshipTypes dbInfo \<noteq> None \<and>
      procedureSignatures dbInfo \<noteq> None \<and> functionSignatures dbInfo \<noteq> None \<and>
      databaseNames dbInfo = Some dbs \<and> aliasNames dbInfo = Some aliases"
    then have "ruleCompletions toks dbInfo ([] @ (RULE_symbolicAliasName, cr) # [])
        = andThen (ruleCompletions toks dbInfo []) (\<lambda>a.
            andThen (ruleCompletions toks dbInfo []) (\<lambda>b.
              Inr (a @ map (\<lambda>name. \<lparr>label = Some name, kind = Value\<rparr>) (dbs @ aliases) @ b)))"
      using pos [of "[]" "[]" aliases dbs] by blast
    then show "ruleCompletions toks dbInfo [(RULE_symbolicAliasName, cr)]
        = Inr (map (\<lambda>name. \<lparr>label = Some name, kind = Value\<rparr>) (dbs @ aliases))"
      using nil h by simp
  next
    assume h: "\<not> (\<exists>t. elemAt toks (startTokenIndex cr + 1) = Some t \<and> tokenType t = SPACE) \<and>
      \<not> (RULE_createAlias \<in> set (ruleList cr) \<or> RULE_createDatabase \<in> set (ruleList cr) \<or>
       RULE_createCompositeDatabase \<in> set (ruleList cr)) \<and>
      \<not> (RULE_dropAlias \<in> set (ruleList cr) \<or> RULE_alterAlias \<in> set (ruleList cr) \<or>
       RULE_showAliases \<in> set (ruleList cr)) \<and>
      databaseNames dbInfo = Some dbs \<and> aliasNames dbInfo = Some aliases \<and>
      ruleCompletions toks dbInfo before = Inr itemsBefore \<and>
      ruleCompletions toks dbInfo after = Inr itemsAfter"
    then have "ruleCompletions toks dbInfo (before @ (RULE_symbolicAliasName, cr) # after)
        = andThen (ruleCompletions toks dbInfo before) (\<lambda>a.
            andThen (ruleCompletions toks dbInfo after) (\<lambda>b.
              Inr (a @ map (\<lambda>name. \<lparr>label = Some name, kind = Value\<rparr>) (dbs @ aliases) @ b)))"
      using pos [of before after aliases dbs] by blast
    then show "ruleCompletions toks dbInfo (before @ (RULE_symbolicAliasName, cr) # after)
        = Inr (itemsBefore @ map (\<lambda>name. \<lparr>label = Some name, kind = Value\<rparr>) (dbs @ aliases)
                 @ itemsAfter)"
      using h by simp
  qed
qed

text \<open>
  Claim C1, at concrete inputs: \<^verbatim>\<open>ALTER ALIAS a \<close> (a space follows the name),
  \<^verbatim>\<open>CREATE ALIAS a\<close>, \<^verbatim>\<open>DROP ALIAS a\<close>, \<^verbatim>\<open>USE n\<close>, and two candidates one after
  the other.
\<close>

theorem alias_name_dispatch_witness:
  "ruleCompletions [word ''ALTER'', space, word ''ALIAS'', space, word ''a'', space, eofToken]
     sampleDb [(RULE_symbolicAliasName, \<lparr>startTokenIndex = 4, ruleList = [RULE_alterAlias]\<rparr>)]
     = Inr [] \<and>
   ruleCompletions [word ''CREATE'', space, word ''ALIAS'', space, word ''a'', eofToken]
     sampleDb [(RULE_symbolicAliasName, \<lparr>startTokenIndex = 4, ruleList = [RULE_createAlias]\<rparr>)]
     = Inr [] \<and>
   ruleCompletions [word ''DROP'', space, word ''ALIAS'', space, word ''a'', eofToken]
     sampleDb [(RULE_symbolicAliasName, \<lparr>startTokenIndex = 4, ruleList = [RULE_dropAlias]\<rparr>)]
     = Inr [\<lparr>label = Some ''myalias'', kind = Value\<rparr>] \<and>
   ruleCompletions [word ''USE'', space, word ''n'', eofToken]
     sampleDb [(RULE_symbolicAliasName, \<lparr>startTokenIndex = 2, ruleList = [RULE_other 7]\<rparr>)]
     = Inr [\<lparr>label = Some ''neo4j'', kind = Value\<rparr>, \<lparr>label = Some ''system'', kind = Value\<rparr>,
            \<lparr>label = Some ''myalias'', kind = Value\<rparr>] \<and>
   ruleCompletions [word ''USE'', space, word ''n'', eofToken]
     sampleDb [(RULE_symbolicAliasName, \<lparr>startTokenIndex = 2, ruleList = [RULE_dropAlias]\<rparr>),
               (RULE_symbolicAliasName, \<lparr>startTokenIndex = 2, ruleList = [RULE_other 7]\<rparr>)]
     = Inr [\<lparr>label = Some ''myalias'', kind = Value\<rparr>,
            \<lparr>label = Some ''neo4j'', kind = Value\<rparr>, \<lparr>label = Some ''system'', kind = Value\<rparr>,
            \<lparr>label = Some ''myalias'', kind = Value\<rparr>]"
proof -
  have present: "labels sampleDb \<noteq> None" "relationshipTypes sampleDb \<noteq> None"
      "procedureSignatures sampleDb \<noteq> None" "functionSignatures sampleDb \<noteq> None"
    and names: "aliasNames sampleDb = Some [''myalias'']"
      "databaseNames sampleDb = Some [''neo4j'', ''system'']"
    by (simp_all add: sampleDb_def)
  have nil: "ruleCompletions toks sampleDb [] = Inr []" for toks
    using present by (intro ruleCompletions_Nil)
  have one: "ruleCompletions [word ''USE'', space, word ''n'', eofToken]
     sampleDb [(RULE_symbolicAliasName, \<lparr>startTokenIndex = 2, ruleList = [RULE_dropAlias]\<rparr>)]
     = Inr [\<lparr>label = Some ''myalias'', kind = Value\<rparr>]"
    using alias_name_dispatch
      [where toks = "[word ''USE'', space, word ''n'', eofToken]"
       and cr = "\<lparr>startTokenIndex = 2, ruleList = [RULE_dropAlias]\<rparr>"
       and dbInfo = sampleDb and aliases = "[''myalias'']"]
      present names
    by (simp add: elemAt_def word_def space_def eofToken_def)
  show ?thesis
    using
      alias_name_dispatch
        [where toks = "[word ''ALTER'', space, word ''ALIAS'', space, word ''a'', space, eofToken]"
         and cr = "\<lparr>startTokenIndex = 4, ruleList = [RULE_alterAlias]\<rparr>"
         and dbInfo = sampleDb]
      alias_name_dispatch
        [where toks = "[word ''CREATE'', space, word ''ALIAS'', space, word ''a'', eofToken]"
         and cr = "\<lparr>startTokenIndex = 4, ruleList = [RULE_createAlias]\<rparr>"
         and dbInfo = sampleDb]
      alias_name_dispatch
        [where toks = "[word ''DROP'', space, word ''ALIAS'', space, word ''a'', eofToken]"
         and cr = "\<lparr>startTokenIndex = 4, ruleList = [RULE_dropAlias]\<rparr>"
         and dbInfo = sampleDb and aliases = "[''myalias'']"]
      alias_name_dispatch
        [where toks = "[word ''USE'', space, word ''n'', eofToken]"
         and cr = "\<lparr>startTokenIndex = 2, ruleList = [RULE_other 7]\<rparr>"
         and dbInfo = sampleDb and aliases = "[''myalias'']" and dbs = "[''neo4j'', ''system'']"
         and before = "[(RULE_symbolicAliasName,
                         \<lparr>startTokenIndex = 2, ruleList = [RULE_dropAlias]\<rparr>)]"
         and after = "[]" and itemsBefore = "[\<lparr>label = Some ''myalias'', kind = Value\<rparr>]"
         and itemsAfter = "[]"]
      present names nil one
    by (simp add: elemAt_def word_def space_def eofToken_def)
qed

subsection \<open>Procedure and function names\<close>

text \<open>
  Claim C2, as amended. A candidate for \<^verbatim>\<open>unescapedSymbolicNameString\<close> or
  \<^verbatim>\<open>symbolicLabelNameString\<close> whose stack holds \<^verbatim>\<open>procedureName\<close> or
  \<^verbatim>\<open>functionName\<close> yields exactly one \<open>Function\<close> item per procedure name, in the
  order of the procedure catalog, in both contexts alike: alone, when the four catalogs
  that every call reads are present, and at any place of the list of candidates. The
  function catalog is read on every call: what it holds never reaches the rule-derived
  items, and when it is absent the call throws a \<^verbatim>\<open>TypeError\<close>.
\<close>

theorem procedure_and_function_name_context:
  "((ruleNumber = RULE_unescapedSymbolicNameString \<or> ruleNumber = RULE_symbolicLabelNameString) \<and>
    (RULE_procedureName \<in> set (ruleList cr) \<or> RULE_functionName \<in> set (ruleList cr)) \<and>
    labels dbInfo \<noteq> None \<and> relationshipTypes dbInfo \<noteq> None \<and>
    procedureSignatures dbInfo = Some pm \<and> functionSignatures dbInfo \<noteq> None \<longrightarrow>
      ruleCompletions toks dbInfo [(ruleNumber, cr)]
        = Inr (map (\<lambda>name. \<lparr>label = Some name, kind = Function\<rparr>) (map fst pm))) \<and>
   ((ruleNumber = RULE_unescapedSymbolicNameString \<or> ruleNumber = RULE_symbolicLabelNameString) \<and>
    (RULE_procedureName \<in> set (ruleList cr) \<or> RULE_functionName \<in> set (ruleList cr)) \<and>
    procedureSignatures dbInfo = Some pm \<and>
    ruleCompletions toks dbInfo before = Inr itemsBefore \<and>
    ruleCompletions toks dbInfo after = Inr itemsAfter \<longrightarrow>
      ruleCompletions toks dbInfo (before @ (ruleNumber, cr) # after)
        = Inr (itemsBefore @ map (\<lambda>name. \<lparr>label = Some name, kind = Function\<rparr>) (map fst pm)
                 @ itemsAfter)) \<and>
   ruleCompletions toks (dbInfo\<lparr>functionSignatures := Some fm\<rparr>) candidateRules
     = ruleCompletions toks (dbInfo\<lparr>functionSignatures := Some fm'\<rparr>) candidateRules \<and>
   (functionSignatures dbInfo = None \<longrightarrow>
      ruleCompletions toks dbInfo candidateRules = Inl TypeError)"
proof (intro conjI impI)
  assume h: "(ruleNumber = RULE_unescapedSymbolicNameString \<or>
              ruleNumber = RULE_symbolicLabelNameString) \<and>
    (RULE_procedureName \<in> set (ruleList cr) \<or> RULE_functionName \<in> set (ruleList cr)) \<and>
    labels dbInfo \<noteq> None \<and> relationshipTypes dbInfo \<noteq> None \<and>
    procedureSignatures dbInfo = Some pm \<and> functionSignatures dbInfo \<noteq> None"
  then have nil: "ruleCompletions toks dbInfo [] = Inr []"
    by (intro ruleCompletions_Nil) simp_all
  from h have "ruleCompletions toks dbInfo ([] @ (ruleNumber, cr) # [])
        = andThen (ruleCompletions toks dbInfo []) (\<lambda>a.
            andThen (ruleCompletions toks dbInfo []) (\<lambda>b.
              Inr (a @ map (\<lambda>name. \<lparr>label = Some name, kind = Function\<rparr>) (map fst pm) @ b)))"
    using procedure_name_positions [where before = "[]" and after = "[]"] by blast
  then show "ruleCompletions toks dbInfo [(ruleNumber, cr)]
        = Inr (map (\<lambda>name. \<lparr>label = Some name, kind = Function\<rparr>) (map fst pm))"
    using nil by simp
next
  assume h: "(ruleNumber = RULE_unescapedSymbolicNameString \<or>
              ruleNumber = RULE_symbolicLabelNameString) \<and>
    (RULE_procedureName \<in> set (ruleList cr) \<or> RULE_functionName \<in> set (ruleList cr)) \<and>
    procedureSignatures dbInfo = Some pm \<and>
    ruleCompletions toks dbInfo before = Inr itemsBefore \<and>
    ruleCompletions toks dbInfo after = Inr itemsAfter"
  then have "ruleCompletions toks dbInfo (before @ (ruleNumber, cr) # after)
        = andThen (ruleCompletions toks dbInfo before) (\<lambda>a.
            andThen (ruleCompletions toks dbInfo after) (\<lambda>b.
              Inr (a @ map (\<lambda>name. \<lparr>label = Some name, kind = Function\<rparr>) (map fst pm) @ b)))"
    using procedure_name_positions [where before = before and after = after] by blast
  then show "ruleCompletions toks dbInfo (before @ (ruleNumber, cr) # after)
        = Inr (itemsBefore @ map (\<lambda>name. \<lparr>label = Some name, kind = Function\<rparr>) (map fst pm)
                 @ itemsAfter)"
    using h by simp
next
  show "ruleCompletions toks (dbInfo\<lparr>functionSignatures := Some fm\<rparr>) candidateRules
     = ruleCompletions toks (dbInfo\<lparr>functionSignatures := Some fm'\<rparr>) candidateRules"
    using procedure_name_positions by blast
next
  assume "functionSignatures dbInfo = None"
  then show "ruleCompletions toks dbInfo candidateRules = Inl TypeError"
    by (intro ruleCompletions_absent) simp
qed

text \<open>
  Claim C2 as stated fails in its last part: on this path the function catalog is
  consulted. With the function catalog absent the call throws, with an empty one it
  returns the procedure names.
\<close>

theorem procedure_and_function_name_context_counterexample:
  "ruleCompletions [word ''CALL'', space, word ''db'', eofToken]
     (sampleDb\<lparr>functionSignatures := None\<rparr>)
     [(RULE_unescapedSymbolicNameString, \<lparr>startTokenIndex = 2, ruleList = [RULE_procedureName]\<rparr>)]
     = Inl TypeError \<and>
   ruleCompletions [word ''CALL'', space, word ''db'', eofToken]
     (sampleDb\<lparr>functionSignatures := Some []\<rparr>)
     [(RULE_unescapedSymbolicNameString, \<lparr>startTokenIndex = 2, ruleList = [RULE_procedureName]\<rparr>)]
     = Inr [\<lparr>label = Some ''foo.bar'', kind = Function\<rparr>,
            \<lparr>label = Some ''dbms.info'', kind = Function\<rparr>,
            \<lparr>label = Some ''db.info'', kind = Function\<rparr>]"
  by (simp add: eval_defs filterNotNull_def)

text \<open>
  Claim C2 as amended, at concrete inputs: a procedure-name context and a function-name
  context yield the same three procedure names, two candidates yield them twice, and an
  absent function catalog throws.
\<close>

theorem procedure_and_function_name_context_witness:
  "ruleCompletions [word ''CALL'', space, word ''db'', eofToken] sampleDb
     [(RULE_unescapedSymbolicNameString, \<lparr>startTokenIndex = 2, ruleList = [RULE_procedureName]\<rparr>)]
     = Inr [\<lparr>label = Some ''foo.bar'', kind = Function\<rparr>,
            \<lparr>label = Some ''dbms.info'', kind = Function\<rparr>,
            \<lparr>label = Some ''db.info'', kind = Function\<rparr>] \<and>
   ruleCompletions [word ''RETURN'', space, word ''ab'', eofToken] sampleDb
     [(RULE_symbolicLabelNameString, \<lparr>startTokenIndex = 2, ruleList = [RULE_functionName]\<rparr>)]
     = Inr [\<lparr>label = Some ''foo.bar'', kind = Function\<rparr>,
            \<lparr>label = Some ''dbms.info'', kind = Function\<rparr>,
            \<lparr>label = Some ''db.info'', kind = Function\<rparr>] \<and>
   ruleCompletions [word ''RETURN'', space, word ''ab'', eofToken] sampleDb
     [(RULE_symbolicLabelNameString, \<lparr>startTokenIndex = 2, ruleList = [RULE_functionName]\<rparr>),
      (RULE_unescapedSymbolicNameString, \<lparr>startTokenIndex = 2, ruleList = [RULE_functionName]\<rparr>)]
     = Inr [\<lparr>label = Some ''foo.bar'', kind = Function\<rparr>,
            \<lparr>label = Some ''dbms.info'', kind = Function\<rparr>,
            \<lparr>label = Some ''db.info'', kind = Function\<rparr>,
            \<lparr>label = Some ''foo.bar'', kind = Function\<rparr>,
            \<lparr>label = Some ''dbms.info'', kind = Function\<rparr>,
            \<lparr>label = Some ''db.info'', kind = Function\<rparr>] \<and>
   ruleCompletions [word ''RETURN'', space, word ''ab'', eofToken]
     (sampleDb\<lparr>functionSignatures := None\<rparr>)
     [(RULE_symbolicLabelNameString, \<lparr>startTokenIndex = 2, ruleList = [RULE_functionName]\<rparr>)]
     = Inl TypeError"
proof -
  have pm: "procedureSignatures sampleDb
      = Some [(''foo.bar'', ''''), (''dbms.info'', ''''), (''db.info'', '''')]"
    and present: "labels sampleDb \<noteq> None" "relationshipTypes sampleDb \<noteq> None"
      "functionSignatures sampleDb \<noteq> None"
    and absent: "functionSignatures (sampleDb\<lparr>functionSignatures := None\<rparr>) = None"
    by (simp_all add: sampleDb_def)
  have first: "ruleCompletions [word ''RETURN'', space, word ''ab'', eofToken] sampleDb
     [(RULE_symbolicLabelNameString, \<lparr>startTokenIndex = 2, ruleList = [RULE_functionName]\<rparr>)]
     = Inr [\<lparr>label = Some ''foo.bar'', kind = Function\<rparr>,
            \<lparr>label = Some ''dbms.info'', kind = Function\<rparr>,
            \<lparr>label = Some ''db.info'', kind = Function\<rparr>]"
    using procedure_and_function_name_context
      [where toks = "[word ''RETURN'', space, word ''ab'', eofToken]"
       and ruleNumber = RULE_symbolicLabelNameString
       and cr = "\<lparr>startTokenIndex = 2, ruleList = [RULE_functionName]\<rparr>"
       and dbInfo = sampleDb
       and pm = "[(''foo.bar'', ''''), (''dbms.info'', ''''), (''db.info'', '''')]"]
      pm present by simp
  have nil: "ruleCompletions [word ''RETURN'', space, word ''ab'', eofToken] sampleDb [] = Inr []"
    using present pm by (intro ruleCompletions_Nil) simp_all
  show ?thesis
    using
      procedure_and_function_name_context
        [where toks = "[word ''CALL'', space, word ''db'', eofToken]"
         and ruleNumber = RULE_unescapedSymbolicNameString
         and cr = "\<lparr>startTokenIndex = 2, ruleList = [RULE_procedureName]\<rparr>"
         and dbInfo = sampleDb
         and pm = "[(''foo.bar'', ''''), (''dbms.info'', ''''), (''db.info'', '''')]"]
      procedure_and_function_name_context
        [where toks = "[word ''RETURN'', space, word ''ab'', eofToken]"
         and ruleNumber = RULE_unescapedSymbolicNameString
         and cr = "\<lparr>startTokenIndex = 2, ruleList = [RULE_functionName]\<rparr>"
         and dbInfo = sampleDb
         and pm = "[(''foo.bar'', ''''), (''dbms.info'', ''''), (''db.info'', '''')]"
         and before = "[(RULE_symbolicLabelNameString,
                         \<lparr>startTokenIndex = 2, ruleList = [RULE_functionName]\<rparr>)]"
         and after = "[]"
         and itemsBefore = "[\<lparr>label = Some ''foo.bar'', kind = Function\<rparr>,
            \<lparr>label = Some ''dbms.info'', kind = Function\<rparr>,
            \<lparr>label = Some ''db.info'', kind = Function\<rparr>]"
         and itemsAfter = "[]"]
      procedure_and_function_name_context
        [where toks = "[word ''RETURN'', space, word ''ab'', eofToken]"
         and dbInfo = "sampleDb\<lparr>functionSignatures := None\<rparr>"
         and candidateRules = "[(RULE_symbolicLabelNameString,
                         \<lparr>startTokenIndex = 2, ruleList = [RULE_functionName]\<rparr>)]"]
      first nil pm present absent
    by simp
qed

subsection \<open>Keyword labels\<close>

text \<open>
  Claim C3. A candidate token without a display name contributes no label. One with a
  display name and no follow-up token contributes exactly the display name. One with
  follow-up tokens, each with a display name that is not empty, contributes, when the
  follow-up is mandatory, exactly one label, the display name, a space and the follow-up
  display names joined by single spaces, and not the bare display name; when the
  follow-up is optional, exactly the bare display name and the combined label. Every
  label becomes a \<open>Keyword\<close> item.
\<close>

theorem token_label_formatting:
  "(tokenNames t = None \<longrightarrow> tokenCandidate tokenNames (t, fu) = []) \<and>
   (tokenNames t = Some d \<and> indexes fu = [] \<longrightarrow> tokenCandidate tokenNames (t, fu) = [d]) \<and>
   (tokenNames t = Some d \<and> indexes fu \<noteq> [] \<and>
    (\<forall>i\<in>set (indexes fu). \<exists>n. tokenNames i = Some n \<and> n \<noteq> []) \<and> \<not> optional fu \<longrightarrow>
      tokenCandidate tokenNames (t, fu) = [d @ '' '' @ join '' '' (map tokenNames (indexes fu))] \<and>
      d \<notin> set (tokenCandidate tokenNames (t, fu))) \<and>
   (tokenNames t = Some d \<and> indexes fu \<noteq> [] \<and>
    (\<forall>i\<in>set (indexes fu). \<exists>n. tokenNames i = Some n \<and> n \<noteq> []) \<and> optional fu \<longrightarrow>
      tokenCandidate tokenNames (t, fu) = [d, d @ '' '' @ join '' '' (map tokenNames (indexes fu))]) \<and>
   tokenCompletions tokenNames entries =
     map (\<lambda>l. \<lparr>label = Some l, kind = Keyword\<rparr>) (concat (map (tokenCandidate tokenNames) entries))"
  using tokenCandidate_cases [of tokenNames t fu d entries] by blast

text \<open>
  Claim C3, at concrete inputs; \<^verbatim>\<open>IF NOT EXISTS\<close> has two follow-up tokens.
\<close>

theorem token_label_formatting_witness:
  "tokenCandidate sampleTokenNames (OtherToken 50, \<lparr>indexes = [], optional = False\<rparr>) = [] \<and>
   tokenCandidate sampleTokenNames (OtherToken 10, \<lparr>indexes = [], optional = False\<rparr>)
     = [''MATCH''] \<and>
   tokenCandidate sampleTokenNames (OtherToken 11, \<lparr>indexes = [OtherToken 10], optional = False\<rparr>)
     = [''OPTIONAL MATCH''] \<and>
   tokenCandidate sampleTokenNames
     (OtherToken 13, \<lparr>indexes = [OtherToken 14, OtherToken 15], optional = False\<rparr>)
     = [''IF NOT EXISTS''] \<and>
   tokenCandidate sampleTokenNames
     (OtherToken 13, \<lparr>indexes = [OtherToken 14, OtherToken 15], optional = True\<rparr>)
     = [''IF'', ''IF NOT EXISTS''] \<and>
   tokenCompletions sampleTokenNames
     [(OtherToken 10, \<lparr>indexes = [], optional = False\<rparr>),
      (OtherToken 13, \<lparr>indexes = [OtherToken 14, OtherToken 15], optional = True\<rparr>)]
     = [\<lparr>label = Some ''MATCH'', kind = Keyword\<rparr>,
        \<lparr>label = Some ''IF'', kind = Keyword\<rparr>,
        \<lparr>label = Some ''IF NOT EXISTS'', kind = Keyword\<rparr>]"
  using
    token_label_formatting
      [where tokenNames = sampleTokenNames and t = "OtherToken 50"
       and fu = "\<lparr>indexes = [], optional = False\<rparr>" and entries = "[]"]
    token_label_formatting
      [where tokenNames = sampleTokenNames and t = "OtherToken 10" and d = "''MATCH''"
       and fu = "\<lparr>indexes = [], optional = False\<rparr>" and entries = "[]"]
    token_label_formatting
      [where tokenNames = sampleTokenNames and t = "OtherToken 11" and d = "''OPTIONAL''"
       and fu = "\<lparr>indexes = [OtherToken 10], optional = False\<rparr>" and entries = "[]"]
    token_label_formatting
      [where tokenNames = sampleTokenNames and t = "OtherToken 13" and d = "''IF''"
       and fu = "\<lparr>indexes = [OtherToken 14, OtherToken 15], optional = False\<rparr>"
       and entries = "[]"]
    token_label_formatting
      [where tokenNames = sampleTokenNames and t = "OtherToken 13" and d = "''IF''"
       and fu = "\<lparr>indexes = [OtherToken 14, OtherToken 15], optional = True\<rparr>"
       and entries = "[(OtherToken 10, \<lparr>indexes = [], optional = False\<rparr>),
          (OtherToken 13, \<lparr>indexes = [OtherToken 14, OtherToken 15], optional = True\<rparr>)]"]
  by (simp add: sampleTokenNames_def)

subsection \<open>Degradation of the structural fallback\<close>

text \<open>
  Claim C4, as amended. \<^verbatim>\<open>autoCompleteStructurally\<close> returns \<^verbatim>\<open>undefined\<close> when the
  token array holds at most two tokens, that is at most one token besides the end marker;
  on a longer array it returns the empty list when the text of the end marker is not
  \<^verbatim>\<open><EOF>\<close>; and, the end marker being \<^verbatim>\<open><EOF>\<close>, it returns \<^verbatim>\<open>undefined\<close> when
  the last token before the end marker is a whitespace token.
\<close>

theorem structural_degradation:
  "(length (tokens parsingResult) \<le> 2 \<longrightarrow>
      autoCompleteStructurally findParent findStopNode parsingResult dbInfo = Inr None) \<and>
   (2 < length (tokens parsingResult) \<and> tokenText (last (tokens parsingResult)) \<noteq> ''<EOF>'' \<longrightarrow>
      autoCompleteStructurally findParent findStopNode parsingResult dbInfo = Inr (Some [])) \<and>
   (2 < length (tokens parsingResult) \<and> tokenText (last (tokens parsingResult)) = ''<EOF>'' \<and>
    tokenType (last (butlast (tokens parsingResult))) = SPACE \<longrightarrow>
      autoCompleteStructurally findParent findStopNode parsingResult dbInfo = Inr None)"
proof (intro conjI impI)
  assume "length (tokens parsingResult) \<le> 2"
  then show "autoCompleteStructurally findParent findStopNode parsingResult dbInfo = Inr None"
    by (simp add: autoCompleteStructurally_def Let_def)
next
  assume h: "2 < length (tokens parsingResult) \<and>
             tokenText (last (tokens parsingResult)) \<noteq> ''<EOF>''"
  then have ne: "tokens parsingResult \<noteq> []" by auto
  have e1: "elemAt (tokens parsingResult) (int (length (tokens parsingResult)) - 2 + 1)
              = Some (last (tokens parsingResult))"
    using elemAt_last [OF ne] by (simp add: algebra_simps)
  show "autoCompleteStructurally findParent findStopNode parsingResult dbInfo = Inr (Some [])"
    unfolding autoCompleteStructurally_def Let_def e1 using h by simp
next
  assume h: "2 < length (tokens parsingResult) \<and>
             tokenText (last (tokens parsingResult)) = ''<EOF>'' \<and>
             tokenType (last (butlast (tokens parsingResult))) = SPACE"
  then have ne: "tokens parsingResult \<noteq> []" by auto
  have e1: "elemAt (tokens parsingResult) (int (length (tokens parsingResult)) - 2 + 1)
              = Some (last (tokens parsingResult))"
    using elemAt_last [OF ne] by (simp add: algebra_simps)
  have e2: "elemAt (tokens parsingResult) (int (length (tokens parsingResult)) - 2)
              = Some (last (butlast (tokens parsingResult)))"
    using h by (intro elemAt_before_last) simp
  show "autoCompleteStructurally findParent findStopNode parsingResult dbInfo = Inr None"
    unfolding autoCompleteStructurally_def Let_def e1 e2 using h by simp
qed

text \<open>
  Claim C4 as stated fails on one token followed by an end marker whose text is not
  \<^verbatim>\<open><EOF>\<close>: the token array without the end marker is not empty, the end marker's text
  differs, and the result is \<^verbatim>\<open>undefined\<close>, not the empty list.
\<close>

theorem structural_degradation_counterexample:
  "tokenText (last [word ''M'', \<lparr>tokenType = EOF, tokenText = ''<missing>''\<rparr>]) \<noteq> ''<EOF>'' \<and>
   autoCompleteStructurally findParent_spec (\<lambda>tree. tree)
     \<lparr>parser = (), tokens = [word ''M'', \<lparr>tokenType = EOF, tokenText = ''<missing>''\<rparr>],
      result = ParserRuleContext (OtherContext 0) ''M'' None\<rparr> sampleDb = Inr None \<and>
   autoCompleteStructurally findParent_spec (\<lambda>tree. tree)
     \<lparr>parser = (), tokens = [word ''M'', \<lparr>tokenType = EOF, tokenText = ''<missing>''\<rparr>],
      result = ParserRuleContext (OtherContext 0) ''M'' None\<rparr> sampleDb \<noteq> Inr (Some [])"
  by (simp add: autoCompleteStructurally_def word_def)

text \<open>
  Claim C4 as amended, at concrete inputs.
\<close>

theorem structural_degradation_witness:
  "autoCompleteStructurally findParent_spec (\<lambda>tree. tree)
     \<lparr>parser = (), tokens = [word ''M'', eofToken],
      result = ParserRuleContext (OtherContext 0) ''M'' None\<rparr> sampleDb = Inr None \<and>
   autoCompleteStructurally findParent_spec (\<lambda>tree. tree)
     \<lparr>parser = (), tokens = [word ''RETURN'', space, word ''abc'',
         \<lparr>tokenType = EOF, tokenText = ''<missing>''\<rparr>],
      result = ParserRuleContext (OtherContext 0) ''abc'' None\<rparr> sampleDb = Inr (Some []) \<and>
   autoCompleteStructurally findParent_spec (\<lambda>tree. tree)
     \<lparr>parser = (), tokens = [word ''MATCH'', space, eofToken],
      result = ParserRuleContext (OtherContext 0) ''MATCH'' None\<rparr> sampleDb = Inr None"
  using
    structural_degradation
      [where parsingResult = "\<lparr>parser = (), tokens = [word ''M'', eofToken],
          result = ParserRuleContext (OtherContext 0) ''M'' None\<rparr>"
       and findParent = findParent_spec and findStopNode = "\<lambda>tree. tree" and dbInfo = sampleDb]
    structural_degradation
      [where parsingResult = "\<lparr>parser = (), tokens = [word ''RETURN'', space, word ''abc'',
            \<lparr>tokenType = EOF, tokenText = ''<missing>''\<rparr>],
          result = ParserRuleContext (OtherContext 0) ''abc'' None\<rparr>"
       and findParent = findParent_spec and findStopNode = "\<lambda>tree. tree" and dbInfo = sampleDb]
    structural_degradation
      [where parsingResult = "\<lparr>parser = (), tokens = [word ''MATCH'', space, eofToken],
          result = ParserRuleContext (OtherContext 0) ''MATCH'' None\<rparr>"
       and findParent = findParent_spec and findStopNode = "\<lambda>tree. tree" and dbInfo = sampleDb]
  by (simp add: space_def eofToken_def)

subsection \<open>Classification by ancestry\<close>

text \<open>
  Claim C5. Past the degradation checks, \<^verbatim>\<open>autoCompleteStructurally\<close> classifies the
  stop node in this order: inside a relationship type, one \<open>TypeParameter\<close> item per
  relationship type; else, under an enclosing expression, one \<open>Function\<close> item for
  each name of the function catalog that starts with the text of the expression; else,
  inside a procedure name, one \<open>Function\<close> item per procedure name; else
  \<^verbatim>\<open>undefined\<close>.
\<close>

theorem structural_ancestry_classification:
  assumes "2 < length (tokens parsingResult)"
    and "tokenText (last (tokens parsingResult)) = ''<EOF>''"
    and "tokenType (last (butlast (tokens parsingResult))) \<noteq> SPACE"
  shows
   "(inRelationshipType findParent (findStopNode (result parsingResult)) \<and>
     relationshipTypes dbInfo = Some rs \<longrightarrow>
       autoCompleteStructurally findParent findStopNode parsingResult dbInfo
         = Inr (Some (map (\<lambda>t. \<lparr>label = Some t, kind = TypeParameter\<rparr>) rs))) \<and>
    (\<not> inRelationshipType findParent (findStopNode (result parsingResult)) \<and>
     parentExpression findParent (findStopNode (result parsingResult)) = Some expr \<and>
     functionSignatures dbInfo = Some fm \<longrightarrow>
       autoCompleteStructurally findParent findStopNode parsingResult dbInfo
         = Inr (Some (map (\<lambda>t. \<lparr>label = Some t, kind = Function\<rparr>)
                        (filter (\<lambda>name. prefix (getText expr) name) (map fst fm))))) \<and>
    (\<not> inRelationshipType findParent (findStopNode (result parsingResult)) \<and>
     parentExpression findParent (findStopNode (result parsingResult)) = None \<and>
     inProcedureName findParent (findStopNode (result parsingResult)) \<and>
     procedureSignatures dbInfo = Some pm \<longrightarrow>
       autoCompleteStructurally findParent findStopNode parsingResult dbInfo
         = Inr (Some (map (\<lambda>t. \<lparr>label = Some t, kind = Function\<rparr>) (map fst pm)))) \<and>
    (\<not> inRelationshipType findParent (findStopNode (result parsingResult)) \<and>
     parentExpression findParent (findStopNode (result parsingResult)) = None \<and>
     \<not> inProcedureName findParent (findStopNode (result parsingResult)) \<longrightarrow>
       autoCompleteStructurally findParent findStopNode parsingResult dbInfo = Inr None)"
  unfolding structural_past_checks [OF assms]
  by (simp add: Let_def someItems_def autocompleteRelTypes_def autoCompleteFunctions_def
      autoCompleteProcNames_def mapItems_def keys_def)

text \<open>
  Claim C5, at concrete inputs; the prefix \<^verbatim>\<open>ab\<close> keeps \<^verbatim>\<open>abs\<close> and drops
  \<^verbatim>\<open>acos\<close> and \<^verbatim>\<open>Abs\<close>.
\<close>

theorem structural_ancestry_classification_witness:
  "autoCompleteStructurally findParent_spec (\<lambda>tree. tree)
     \<lparr>parser = (), tokens = typedTokens, result = relTypeNode\<rparr> sampleDb
     = Inr (Some [\<lparr>label = Some ''KNOWS'', kind = TypeParameter\<rparr>]) \<and>
   autoCompleteStructurally findParent_spec (\<lambda>tree. tree)
     \<lparr>parser = (), tokens = typedTokens, result = expressionNode\<rparr> sampleDb
     = Inr (Some [\<lparr>label = Some ''abs'', kind = Function\<rparr>]) \<and>
   autoCompleteStructurally findParent_spec (\<lambda>tree. tree)
     \<lparr>parser = (), tokens = typedTokens, result = procedureNode\<rparr> sampleDb
     = Inr (Some [\<lparr>label = Some ''foo.bar'', kind = Function\<rparr>,
                  \<lparr>label = Some ''dbms.info'', kind = Function\<rparr>,
                  \<lparr>label = Some ''db.info'', kind = Function\<rparr>]) \<and>
   autoCompleteStructurally findParent_spec (\<lambda>tree. tree)
     \<lparr>parser = (), tokens = typedTokens, result = plainNode\<rparr> sampleDb = Inr None"
proof -
  have t: "2 < length (tokens \<lparr>parser = (), tokens = typedTokens, result = n\<rparr>)"
      "tokenText (last (tokens \<lparr>parser = (), tokens = typedTokens, result = n\<rparr>)) = ''<EOF>''"
      "tokenType (last (butlast (tokens \<lparr>parser = (), tokens = typedTokens, result = n\<rparr>))) \<noteq> SPACE"
    for n :: ParserRuleContext
    by (simp_all add: typedTokens_def word_def space_def eofToken_def)
  show ?thesis
    using
      structural_ancestry_classification [OF t [of relTypeNode],
        where findParent = findParent_spec and findStopNode = "\<lambda>tree. tree" and dbInfo = sampleDb
        and rs = "[''KNOWS'']"]
      structural_ancestry_classification [OF t [of expressionNode],
        where findParent = findParent_spec and findStopNode = "\<lambda>tree. tree" and dbInfo = sampleDb
        and expr = "ParserRuleContext Expression2Context ''ab'' None"
        and fm = "[(''abs'', ''''), (''acos'', ''''), (''Abs'', '''')]"]
      structural_ancestry_classification [OF t [of procedureNode],
        where findParent = findParent_spec and findStopNode = "\<lambda>tree. tree" and dbInfo = sampleDb
        and pm = "[(''foo.bar'', ''''), (''dbms.info'', ''''), (''db.info'', '''')]"]
      structural_ancestry_classification [OF t [of plainNode],
        where findParent = findParent_spec and findStopNode = "\<lambda>tree. tree" and dbInfo = sampleDb]
    by (simp add: relTypeNode_def expressionNode_def procedureNode_def plainNode_def
        findParent_spec_def inRelationshipType_def parentExpression_def
        inProcedureName_def isLabel_def isDefined_def sampleDb_def)
qed

subsection \<open>Order of the result\<close>

text \<open>
  Claim C6. A result of \<^verbatim>\<open>completionCoreCompletion\<close> is the rule-derived items, all of
  kind \<open>Function\<close>, \<open>TypeParameter\<close> or \<open>Value\<close>, followed by the token-derived
  items, all of kind \<open>Keyword\<close>; the call returns whenever the six catalogs are
  present; and the items of a list of candidates are the items of its parts, one after
  the other, with nothing removed.
\<close>

theorem rule_items_precede_keyword_items:
  "(completionCoreCompletion tokenNames lexerSymbols collectCandidates parsingResult dbInfo
      = Inr items \<longrightarrow>
      (\<exists>ruleItems.
         ruleCompletions (tokens parsingResult) dbInfo
           (rules (collectCandidates (parser parsingResult) preferredRules
              (ignoredTokens lexerSymbols) (caretIndexOf (tokens parsingResult)))) = Inr ruleItems \<and>
         items = ruleItems @
           tokenCompletions tokenNames
             (tokenEntries (collectCandidates (parser parsingResult) preferredRules
                (ignoredTokens lexerSymbols) (caretIndexOf (tokens parsingResult)))) \<and>
         (\<forall>r\<in>set ruleItems. kind r = Function \<or> kind r = TypeParameter \<or> kind r = Value))) \<and>
   (\<forall>k\<in>set (tokenCompletions tokenNames entries). kind k = Keyword) \<and>
   (labels dbInfo \<noteq> None \<and> relationshipTypes dbInfo \<noteq> None \<and>
    procedureSignatures dbInfo \<noteq> None \<and> functionSignatures dbInfo \<noteq> None \<and>
    databaseNames dbInfo \<noteq> None \<and> aliasNames dbInfo \<noteq> None \<longrightarrow>
      (\<exists>found. completionCoreCompletion tokenNames lexerSymbols collectCandidates
                  parsingResult dbInfo = Inr found)) \<and>
   ruleCompletions toks dbInfo (xs @ ys) =
     andThen (ruleCompletions toks dbInfo xs) (\<lambda>a.
       andThen (ruleCompletions toks dbInfo ys) (\<lambda>b. Inr (a @ b))) \<and>
   tokenCompletions tokenNames (es @ fs) =
     tokenCompletions tokenNames es @ tokenCompletions tokenNames fs"
proof (intro conjI impI ballI)
  assume h: "completionCoreCompletion tokenNames lexerSymbols collectCandidates parsingResult
     dbInfo = Inr items"
  let ?cands = "collectCandidates (parser parsingResult) preferredRules
              (ignoredTokens lexerSymbols) (caretIndexOf (tokens parsingResult))"
  from h obtain ruleItems where
    r: "ruleCompletions (tokens parsingResult) dbInfo (rules ?cands) = Inr ruleItems"
    and i: "items = ruleItems @ tokenCompletions tokenNames (tokenEntries ?cands)"
    unfolding completionCoreCompletion_unfold
    by (cases "ruleCompletions (tokens parsingResult) dbInfo (rules ?cands)") auto
  show "\<exists>ruleItems.
         ruleCompletions (tokens parsingResult) dbInfo (rules ?cands) = Inr ruleItems \<and>
         items = ruleItems @ tokenCompletions tokenNames (tokenEntries ?cands) \<and>
         (\<forall>r\<in>set ruleItems. kind r = Function \<or> kind r = TypeParameter \<or> kind r = Value)"
    using r i ruleCompletions_kinds [OF r] by blast
next
  fix k assume "k \<in> set (tokenCompletions tokenNames entries)"
  then show "kind k = Keyword" by (rule tokenCompletions_kinds)
next
  assume "labels dbInfo \<noteq> None \<and> relationshipTypes dbInfo \<noteq> None \<and>
    procedureSignatures dbInfo \<noteq> None \<and> functionSignatures dbInfo \<noteq> None \<and>
    databaseNames dbInfo \<noteq> None \<and> aliasNames dbInfo \<noteq> None"
  then obtain ruleItems where "ruleCompletions (tokens parsingResult) dbInfo
     (rules (collectCandidates (parser parsingResult) preferredRules
              (ignoredTokens lexerSymbols) (caretIndexOf (tokens parsingResult)))) = Inr ruleItems"
    using ruleCompletions_total by blast
  then show "\<exists>found. completionCoreCompletion tokenNames lexerSymbols collectCandidates
                  parsingResult dbInfo = Inr found"
    unfolding completionCoreCompletion_unfold by simp
next
  show "ruleCompletions toks dbInfo (xs @ ys) =
     andThen (ruleCompletions toks dbInfo xs) (\<lambda>a.
       andThen (ruleCompletions toks dbInfo ys) (\<lambda>b. Inr (a @ b)))"
    by (rule ruleCompletions_append)
next
  show "tokenCompletions tokenNames (es @ fs) =
     tokenCompletions tokenNames es @ tokenCompletions tokenNames fs"
    by (rule tokenCompletions_append)
qed

text \<open>
  Claim C6, at a concrete input: two candidates give the procedure names twice, none of
  them filtered by the typed text \<^verbatim>\<open>db\<close>, ahead of the keywords.
\<close>

theorem rule_items_precede_keyword_items_witness:
  "completionCoreCompletion sampleTokenNames [] sampleCollector
     \<lparr>parser = (), tokens = [word ''CALL'', space, word ''db'', eofToken], result = ()\<rparr> sampleDb
     = Inr ([\<lparr>label = Some ''foo.bar'', kind = Function\<rparr>,
             \<lparr>label = Some ''dbms.info'', kind = Function\<rparr>,
             \<lparr>label = Some ''db.info'', kind = Function\<rparr>,
             \<lparr>label = Some ''foo.bar'', kind = Function\<rparr>,
             \<lparr>label = Some ''dbms.info'', kind = Function\<rparr>,
             \<lparr>label = Some ''db.info'', kind = Function\<rparr>] @
            [\<lparr>label = Some ''MATCH'', kind = Keyword\<rparr>,
             \<lparr>label = Some ''OPTIONAL MATCH'', kind = Keyword\<rparr>])"
  using
    rule_items_precede_keyword_items
      [where tokenNames = sampleTokenNames and lexerSymbols = "[]"
       and collectCandidates = sampleCollector
       and parsingResult = "\<lparr>parser = (), tokens = [word ''CALL'', space, word ''db'', eofToken],
                              result = ()\<rparr>"
       and dbInfo = sampleDb and entries = "[]" and xs = "[]" and ys = "[]" and es = "[]"
       and fs = "[]"
       and items = "[\<lparr>label = Some ''foo.bar'', kind = Function\<rparr>,
             \<lparr>label = Some ''dbms.info'', kind = Function\<rparr>,
             \<lparr>label = Some ''db.info'', kind = Function\<rparr>,
             \<lparr>label = Some ''foo.bar'', kind = Function\<rparr>,
             \<lparr>label = Some ''dbms.info'', kind = Function\<rparr>,
             \<lparr>label = Some ''db.info'', kind = Function\<rparr>,
             \<lparr>label = Some ''MATCH'', kind = Keyword\<rparr>,
             \<lparr>label = Some ''OPTIONAL MATCH'', kind = Keyword\<rparr>]"]
  by (simp add: eval_defs completionCoreCompletion_def caretIndexOf_def sampleCollector_def
      tokenCompletions_def tokenCandidate_def sampleTokenNames_def filterNotNull_def)

subsection \<open>Labels in a node pattern\<close>

text \<open>
  Claim C7, as amended. With the labels Cat, Person, Dog and no relationship type named
  Person, for every document, \<^verbatim>\<open>MATCH (n:P\<close> among them. A label-name candidate
  (\<^verbatim>\<open>unescapedSymbolicNameString\<close> or \<^verbatim>\<open>symbolicLabelNameString\<close>) whose stack
  holds \<^verbatim>\<open>nodePattern\<close> and none of \<^verbatim>\<open>procedureName\<close>, \<^verbatim>\<open>functionName\<close>,
  \<^verbatim>\<open>relationshipPattern\<close> yields exactly the three \<open>TypeParameter\<close> items Cat,
  Person, Dog, and when the collector reports it \<^verbatim>\<open>completionCoreCompletion\<close> returns
  them between the items of the candidates before and after it, ahead of the keywords.
  Whatever the collector reports, a result that holds the item Person holds the items
  Cat and Dog too, so its \<open>TypeParameter\<close> items are never Person alone; its
  \<open>Keyword\<close> items are the token-derived ones, whatever the labels are; and the two
  structural resolvers never yield the item Person.
\<close>

theorem label_items_are_whole_catalog:
  assumes "labels dbInfo = Some [''Cat'', ''Person'', ''Dog'']"
    and "relationshipTypes dbInfo = Some rs"
    and "''Person'' \<notin> set rs"
  shows
   "((ruleNumber = RULE_unescapedSymbolicNameString \<or> ruleNumber = RULE_symbolicLabelNameString) \<and>
     RULE_procedureName \<notin> set (ruleList cr) \<and> RULE_functionName \<notin> set (ruleList cr) \<and>
     RULE_relationshipPattern \<notin> set (ruleList cr) \<and> RULE_nodePattern \<in> set (ruleList cr) \<and>
     procedureSignatures dbInfo \<noteq> None \<and> functionSignatures dbInfo \<noteq> None \<longrightarrow>
       ruleCompletions toks dbInfo [(ruleNumber, cr)]
         = Inr [\<lparr>label = Some ''Cat'', kind = TypeParameter\<rparr>,
                \<lparr>label = Some ''Person'', kind = TypeParameter\<rparr>,
                \<lparr>label = Some ''Dog'', kind = TypeParameter\<rparr>]) \<and>
    ((ruleNumber = RULE_unescapedSymbolicNameString \<or> ruleNumber = RULE_symbolicLabelNameString) \<and>
     RULE_procedureName \<notin> set (ruleList cr) \<and> RULE_functionName \<notin> set (ruleList cr) \<and>
     RULE_relationshipPattern \<notin> set (ruleList cr) \<and> RULE_nodePattern \<in> set (ruleList cr) \<and>
     collectCandidates (parser parsingResult) preferredRules (ignoredTokens lexerSymbols)
         (caretIndexOf (tokens parsingResult))
       = \<lparr>rules = before @ (ruleNumber, cr) # after, tokenEntries = entries\<rparr> \<and>
     ruleCompletions (tokens parsingResult) dbInfo before = Inr itemsBefore \<and>
     ruleCompletions (tokens parsingResult) dbInfo after = Inr itemsAfter \<longrightarrow>
       completionCoreCompletion tokenNames lexerSymbols collectCandidates parsingResult dbInfo
         = Inr (itemsBefore @
                [\<lparr>label = Some ''Cat'', kind = TypeParameter\<rparr>,
                 \<lparr>label = Some ''Person'', kind = TypeParameter\<rparr>,
                 \<lparr>label = Some ''Dog'', kind = TypeParameter\<rparr>] @
                itemsAfter @ tokenCompletions tokenNames entries)) \<and>
    (completionCoreCompletion tokenNames lexerSymbols collectCandidates parsingResult dbInfo
       = Inr items \<and>
     \<lparr>label = Some ''Person'', kind = TypeParameter\<rparr> \<in> set items \<longrightarrow>
       \<lparr>label = Some ''Cat'', kind = TypeParameter\<rparr> \<in> set items \<and>
       \<lparr>label = Some ''Dog'', kind = TypeParameter\<rparr> \<in> set items \<and>
       filter (\<lambda>i. kind i = TypeParameter) items
         \<noteq> [\<lparr>label = Some ''Person'', kind = TypeParameter\<rparr>]) \<and>
    (completionCoreCompletion tokenNames lexerSymbols collectCandidates parsingResult dbInfo
       = Inr items \<longrightarrow>
       filter (\<lambda>i. kind i = Keyword) items =
         tokenCompletions tokenNames
           (tokenEntries (collectCandidates (parser parsingResult) preferredRules
              (ignoredTokens lexerSymbols) (caretIndexOf (tokens parsingResult))))) \<and>
    (autoCompleteStructurally findParent findStopNode parsingResult dbInfo = Inr (Some found) \<longrightarrow>
       \<lparr>label = Some ''Person'', kind = TypeParameter\<rparr> \<notin> set found) \<and>
    (autoCompleteStructurallyAddingChar findParent findStopNode parse textUntilPosition dbInfo
       = Inr (Some found) \<longrightarrow>
       \<lparr>label = Some ''Person'', kind = TypeParameter\<rparr> \<notin> set found)"
proof -
  note facts = label_catalog_facts [OF assms]
  let ?three = "[\<lparr>label = Some ''Cat'', kind = TypeParameter\<rparr>,
                 \<lparr>label = Some ''Person'', kind = TypeParameter\<rparr>,
                 \<lparr>label = Some ''Dog'', kind = TypeParameter\<rparr>]"
  have placed: "ruleCompletions toks' dbInfo (before' @ (ruleNumber, cr) # after')
         = andThen (ruleCompletions toks' dbInfo before') (\<lambda>a.
             andThen (ruleCompletions toks' dbInfo after') (\<lambda>b. Inr (a @ ?three @ b)))"
    if "(ruleNumber = RULE_unescapedSymbolicNameString \<or>
         ruleNumber = RULE_symbolicLabelNameString) \<and>
     RULE_procedureName \<notin> set (ruleList cr) \<and> RULE_functionName \<notin> set (ruleList cr) \<and>
     RULE_relationshipPattern \<notin> set (ruleList cr) \<and> RULE_nodePattern \<in> set (ruleList cr)"
    for toks' before' after'
    using that facts [where ruleNumber = ruleNumber and cr = cr and toks = toks'
        and before = before' and after = after'] by blast
  show ?thesis
  proof (intro conjI impI)
    assume h: "(ruleNumber = RULE_unescapedSymbolicNameString \<or>
                ruleNumber = RULE_symbolicLabelNameString) \<and>
     RULE_procedureName \<notin> set (ruleList cr) \<and> RULE_functionName \<notin> set (ruleList cr) \<and>
     RULE_relationshipPattern \<notin> set (ruleList cr) \<and> RULE_nodePattern \<in> set (ruleList cr) \<and>
     procedureSignatures dbInfo \<noteq> None \<and> functionSignatures dbInfo \<noteq> None"
    then have nil: "ruleCompletions toks dbInfo [] = Inr []"
      using assms by (intro ruleCompletions_Nil) simp_all
    from h have "ruleCompletions toks dbInfo ([] @ (ruleNumber, cr) # [])
         = andThen (ruleCompletions toks dbInfo []) (\<lambda>a.
             andThen (ruleCompletions toks dbInfo []) (\<lambda>b. Inr (a @ ?three @ b)))"
      by (intro placed) simp
    then show "ruleCompletions toks dbInfo [(ruleNumber, cr)] = Inr ?three"
      using nil by simp
  next
    assume h: "(ruleNumber = RULE_unescapedSymbolicNameString \<or>
                ruleNumber = RULE_symbolicLabelNameString) \<and>
     RULE_procedureName \<notin> set (ruleList cr) \<and> RULE_functionName \<notin> set (ruleList cr) \<and>
     RULE_relationshipPattern \<notin> set (ruleList cr) \<and> RULE_nodePattern \<in> set (ruleList cr) \<and>
     collectCandidates (parser parsingResult) preferredRules (ignoredTokens lexerSymbols)
         (caretIndexOf (tokens parsingResult))
       = \<lparr>rules = before @ (ruleNumber, cr) # after, tokenEntries = entries\<rparr> \<and>
     ruleCompletions (tokens parsingResult) dbInfo before = Inr itemsBefore \<and>
     ruleCompletions (tokens parsingResult) dbInfo after = Inr itemsAfter"
    then have "ruleCompletions (tokens parsingResult) dbInfo (before @ (ruleNumber, cr) # after)
         = andThen (ruleCompletions (tokens parsingResult) dbInfo before) (\<lambda>a.
             andThen (ruleCompletions (tokens parsingResult) dbInfo after)
               (\<lambda>b. Inr (a @ ?three @ b)))"
      by (intro placed) simp
    then have "ruleCompletions (tokens parsingResult) dbInfo (before @ (ruleNumber, cr) # after)
         = Inr (itemsBefore @ ?three @ itemsAfter)"
      using h by simp
    then show "completionCoreCompletion tokenNames lexerSymbols collectCandidates parsingResult
         dbInfo = Inr (itemsBefore @ ?three @ itemsAfter @ tokenCompletions tokenNames entries)"
      unfolding completionCoreCompletion_unfold using h by simp
  next
    assume h: "completionCoreCompletion tokenNames lexerSymbols collectCandidates parsingResult
       dbInfo = Inr items \<and>
     \<lparr>label = Some ''Person'', kind = TypeParameter\<rparr> \<in> set items"
    then have both: "\<lparr>label = Some ''Cat'', kind = TypeParameter\<rparr> \<in> set items \<and>
       \<lparr>label = Some ''Dog'', kind = TypeParameter\<rparr> \<in> set items"
      using facts [where tokenNames = tokenNames and lexerSymbols = lexerSymbols
          and collectCandidates = collectCandidates and parsingResult = parsingResult
          and items = items] by blast
    then show "\<lparr>label = Some ''Cat'', kind = TypeParameter\<rparr> \<in> set items"
      and "\<lparr>label = Some ''Dog'', kind = TypeParameter\<rparr> \<in> set items" by simp_all
    have cat: "\<lparr>label = Some ''Cat'', kind = TypeParameter\<rparr>
            \<in> set (filter (\<lambda>i. kind i = TypeParameter) items)"
      using both by simp
    show "filter (\<lambda>i. kind i = TypeParameter) items
         \<noteq> [\<lparr>label = Some ''Person'', kind = TypeParameter\<rparr>]"
    proof
      assume "filter (\<lambda>i. kind i = TypeParameter) items
         = [\<lparr>label = Some ''Person'', kind = TypeParameter\<rparr>]"
      with cat have "\<lparr>label = Some ''Cat'', kind = TypeParameter\<rparr>
         \<in> set [\<lparr>label = Some ''Person'', kind = TypeParameter\<rparr>]" by simp
      then show False by simp
    qed
  next
    assume "completionCoreCompletion tokenNames lexerSymbols collectCandidates parsingResult
       dbInfo = Inr items"
    then show "filter (\<lambda>i. kind i = Keyword) items =
         tokenCompletions tokenNames
           (tokenEntries (collectCandidates (parser parsingResult) preferredRules
              (ignoredTokens lexerSymbols) (caretIndexOf (tokens parsingResult))))"
      using facts [where tokenNames = tokenNames and lexerSymbols = lexerSymbols
          and collectCandidates = collectCandidates and parsingResult = parsingResult
          and items = items] by blast
  next
    assume "autoCompleteStructurally findParent findStopNode parsingResult dbInfo
              = Inr (Some found)"
    from structural_items [OF this assms(2)] assms(3)
    show "\<lparr>label = Some ''Person'', kind = TypeParameter\<rparr> \<notin> set found" by auto
  next
    assume "autoCompleteStructurallyAddingChar findParent findStopNode parse textUntilPosition
              dbInfo = Inr (Some found)"
    from structural_adding_char_items [OF this assms(2)] assms(3)
    show "\<lparr>label = Some ''Person'', kind = TypeParameter\<rparr> \<notin> set found" by auto
  qed
qed

text \<open>
  Claim C7 as stated fails. For the tokens of \<^verbatim>\<open>MATCH (n:P\<close> and a collector that
  reports, at the caret and for the preferred rule, a label-name candidate inside a node
  pattern, the result holds three \<open>TypeParameter\<close> items; and no collector, no table
  of display names and no table of token classes make the \<open>TypeParameter\<close> items of
  the result Person alone.
\<close>

theorem label_items_are_whole_catalog_counterexample:
  "completionCoreCompletion sampleTokenNames [] labelCollector
     \<lparr>parser = (), tokens = matchLabelTokens, result = ()\<rparr> labelsOnlyDb
     = Inr [\<lparr>label = Some ''Cat'', kind = TypeParameter\<rparr>,
            \<lparr>label = Some ''Person'', kind = TypeParameter\<rparr>,
            \<lparr>label = Some ''Dog'', kind = TypeParameter\<rparr>] \<and>
   \<not> (\<exists>tokenNames lexerSymbols (collectCandidates :: unit Collector) items.
        completionCoreCompletion tokenNames lexerSymbols collectCandidates
          \<lparr>parser = (), tokens = matchLabelTokens, result = ()\<rparr> labelsOnlyDb = Inr items \<and>
        filter (\<lambda>i. kind i = TypeParameter) items
          = [\<lparr>label = Some ''Person'', kind = TypeParameter\<rparr>])"
proof (intro conjI notI)
  show "completionCoreCompletion sampleTokenNames [] labelCollector
     \<lparr>parser = (), tokens = matchLabelTokens, result = ()\<rparr> labelsOnlyDb
     = Inr [\<lparr>label = Some ''Cat'', kind = TypeParameter\<rparr>,
            \<lparr>label = Some ''Person'', kind = TypeParameter\<rparr>,
            \<lparr>label = Some ''Dog'', kind = TypeParameter\<rparr>]"
    by (simp add: completionCoreCompletion_def caretIndexOf_def labelCollector_def
      preferredRules_def matchLabelTokens_def labelsOnlyDb_def ruleCompletions_def
      ruleCompletion_def mapItems_def keys_def tokenCompletions_def filterNotNull_def)
next
  assume "\<exists>tokenNames lexerSymbols (collectCandidates :: unit Collector) items.
        completionCoreCompletion tokenNames lexerSymbols collectCandidates
          \<lparr>parser = (), tokens = matchLabelTokens, result = ()\<rparr> labelsOnlyDb = Inr items \<and>
        filter (\<lambda>i. kind i = TypeParameter) items
          = [\<lparr>label = Some ''Person'', kind = TypeParameter\<rparr>]"
  then obtain tokenNames lexerSymbols and collectCandidates :: "unit Collector" and items where
    r: "completionCoreCompletion tokenNames lexerSymbols collectCandidates
          \<lparr>parser = (), tokens = matchLabelTokens, result = ()\<rparr> labelsOnlyDb = Inr items"
    and f: "filter (\<lambda>i. kind i = TypeParameter) items
          = [\<lparr>label = Some ''Person'', kind = TypeParameter\<rparr>]"
    by blast
  have a: "labels labelsOnlyDb = Some [''Cat'', ''Person'', ''Dog'']"
    and b: "relationshipTypes labelsOnlyDb = Some []"
    and c: "''Person'' \<notin> set []"
    by (simp_all add: labelsOnlyDb_def)
  have "\<lparr>label = Some ''Person'', kind = TypeParameter\<rparr>
          \<in> set (filter (\<lambda>i. kind i = TypeParameter) items)"
    using f by simp
  then have p: "\<lparr>label = Some ''Person'', kind = TypeParameter\<rparr> \<in> set items" by simp
  have "\<lparr>label = Some ''Cat'', kind = TypeParameter\<rparr> \<in> set items"
    using label_catalog_facts [OF a b c, where tokenNames = tokenNames
        and lexerSymbols = lexerSymbols and collectCandidates = collectCandidates
        and parsingResult = "\<lparr>parser = (), tokens = matchLabelTokens, result = ()\<rparr>"
        and items = items] r p by blast
  then have "\<lparr>label = Some ''Cat'', kind = TypeParameter\<rparr>
          \<in> set (filter (\<lambda>i. kind i = TypeParameter) items)" by simp
  with f show False by simp
qed

text \<open>
  Claim C7 as amended, at concrete inputs.
\<close>

theorem label_items_are_whole_catalog_witness:
  "completionCoreCompletion sampleTokenNames [] labelCollector
     \<lparr>parser = (), tokens = matchLabelTokens, result = ()\<rparr> labelsOnlyDb
     = Inr [\<lparr>label = Some ''Cat'', kind = TypeParameter\<rparr>,
            \<lparr>label = Some ''Person'', kind = TypeParameter\<rparr>,
            \<lparr>label = Some ''Dog'', kind = TypeParameter\<rparr>] \<and>
   ruleCompletions matchLabelTokens sampleDb
     [(RULE_unescapedSymbolicNameString, \<lparr>startTokenIndex = 5, ruleList = [RULE_nodePattern]\<rparr>)]
     = Inr [\<lparr>label = Some ''Cat'', kind = TypeParameter\<rparr>,
            \<lparr>label = Some ''Person'', kind = TypeParameter\<rparr>,
            \<lparr>label = Some ''Dog'', kind = TypeParameter\<rparr>] \<and>
   autoCompleteStructurally findParent_spec (\<lambda>tree. tree)
     \<lparr>parser = (), tokens = typedTokens, result = relTypeNode\<rparr> sampleDb
     = Inr (Some [\<lparr>label = Some ''KNOWS'', kind = TypeParameter\<rparr>]) \<and>
   \<lparr>label = Some ''Person'', kind = TypeParameter\<rparr>
     \<notin> set [\<lparr>label = Some ''KNOWS'', kind = TypeParameter\<rparr>]"
proof -
  have a: "labels labelsOnlyDb = Some [''Cat'', ''Person'', ''Dog'']"
    and b: "relationshipTypes labelsOnlyDb = Some []"
    and c: "''Person'' \<notin> set []"
    and a': "labels sampleDb = Some [''Cat'', ''Person'', ''Dog'']"
    and b': "relationshipTypes sampleDb = Some [''KNOWS'']"
    and c': "''Person'' \<notin> set [''KNOWS'']"
    and present: "procedureSignatures sampleDb \<noteq> None" "functionSignatures sampleDb \<noteq> None"
      "labels labelsOnlyDb \<noteq> None" "relationshipTypes labelsOnlyDb \<noteq> None"
      "procedureSignatures labelsOnlyDb \<noteq> None" "functionSignatures labelsOnlyDb \<noteq> None"
    by (simp_all add: sampleDb_def labelsOnlyDb_def)
  have nil: "ruleCompletions matchLabelTokens labelsOnlyDb [] = Inr []"
    using present by (intro ruleCompletions_Nil)
  have report: "labelCollector () preferredRules (ignoredTokens []) (caretIndexOf matchLabelTokens)
      = \<lparr>rules = [] @ (RULE_symbolicLabelNameString,
                 \<lparr>startTokenIndex = 5, ruleList = [RULE_nodePattern, RULE_labelExpression]\<rparr>) # [],
         tokenEntries = []\<rparr>"
    by (simp add: labelCollector_def preferredRules_def caretIndexOf_def matchLabelTokens_def)
  have "completionCoreCompletion sampleTokenNames [] labelCollector
     \<lparr>parser = (), tokens = matchLabelTokens, result = ()\<rparr> labelsOnlyDb
     = Inr ([] @ [\<lparr>label = Some ''Cat'', kind = TypeParameter\<rparr>,
            \<lparr>label = Some ''Person'', kind = TypeParameter\<rparr>,
            \<lparr>label = Some ''Dog'', kind = TypeParameter\<rparr>] @ [] @
            tokenCompletions sampleTokenNames [])"
    by (rule label_items_are_whole_catalog [OF a b c,
        where ruleNumber = RULE_symbolicLabelNameString
        and cr = "\<lparr>startTokenIndex = 5, ruleList = [RULE_nodePattern, RULE_labelExpression]\<rparr>"
        and before = "[]" and after = "[]",
        THEN conjunct2, THEN conjunct1, THEN mp])
      (simp add: nil report)
  then have whole: "completionCoreCompletion sampleTokenNames [] labelCollector
     \<lparr>parser = (), tokens = matchLabelTokens, result = ()\<rparr> labelsOnlyDb
     = Inr [\<lparr>label = Some ''Cat'', kind = TypeParameter\<rparr>,
            \<lparr>label = Some ''Person'', kind = TypeParameter\<rparr>,
            \<lparr>label = Some ''Dog'', kind = TypeParameter\<rparr>]"
    by (simp add: tokenCompletions_def)
  have single: "ruleCompletions matchLabelTokens sampleDb
     [(RULE_unescapedSymbolicNameString, \<lparr>startTokenIndex = 5, ruleList = [RULE_nodePattern]\<rparr>)]
     = Inr [\<lparr>label = Some ''Cat'', kind = TypeParameter\<rparr>,
            \<lparr>label = Some ''Person'', kind = TypeParameter\<rparr>,
            \<lparr>label = Some ''Dog'', kind = TypeParameter\<rparr>]"
    by (rule label_items_are_whole_catalog [OF a' b' c', THEN conjunct1, THEN mp])
      (simp add: present)
  have s: "autoCompleteStructurally findParent_spec (\<lambda>tree. tree)
     \<lparr>parser = (), tokens = typedTokens, result = relTypeNode\<rparr> sampleDb
     = Inr (Some [\<lparr>label = Some ''KNOWS'', kind = TypeParameter\<rparr>])"
    by (simp add: autoCompleteStructurally_unfold typedTokens_def word_def space_def
        eofToken_def relTypeNode_def findParent_spec_def inRelationshipType_def isLabel_def
        isDefined_def someItems_def autocompleteRelTypes_def mapItems_def sampleDb_def)
  have never: "\<lparr>label = Some ''Person'', kind = TypeParameter\<rparr>
     \<notin> set [\<lparr>label = Some ''KNOWS'', kind = TypeParameter\<rparr>]"
    by (rule label_items_are_whole_catalog [OF a' b' c', THEN conjunct2, THEN conjunct2,
          THEN conjunct2, THEN conjunct2, THEN conjunct1, THEN mp]) (rule s)
  show ?thesis
    using whole single s never by simp
qed

subsection \<open>Absent catalogs\<close>

text \<open>
  Claim C8, as amended. An absent catalog is not read as an empty one. When the six
  catalogs are present, empty or not, \<^verbatim>\<open>completionCoreCompletion\<close>,
  \<^verbatim>\<open>autoCompleteStructurally\<close> and \<^verbatim>\<open>autoCompleteStructurallyAddingChar\<close> return
  without throwing. When the labels, the relationship types, the procedure catalog or
  the function catalog is absent, \<^verbatim>\<open>completionCoreCompletion\<close> throws a
  \<^verbatim>\<open>TypeError\<close>. With those four present, an alias-name candidate throws when it
  reaches the alias names and they are absent, or the database names and they are
  absent; where the database names are present and the alias names absent, it returns
  the database names followed by one item whose label is \<^verbatim>\<open>undefined\<close>. Past their
  checks, the structural resolvers throw when the catalog their branch reads is absent:
  the relationship types inside a relationship type, the function catalog under an
  expression, the procedure catalog inside a procedure name.
\<close>

theorem absent_catalog_field:
  "(labels dbInfo \<noteq> None \<and> relationshipTypes dbInfo \<noteq> None \<and>
    procedureSignatures dbInfo \<noteq> None \<and> functionSignatures dbInfo \<noteq> None \<and>
    databaseNames dbInfo \<noteq> None \<and> aliasNames dbInfo \<noteq> None \<longrightarrow>
      (\<exists>items. completionCoreCompletion tokenNames lexerSymbols collectCandidates
                  parsingResult dbInfo = Inr items) \<and>
      (\<exists>r. autoCompleteStructurally findParent findStopNode parsingResult dbInfo = Inr r) \<and>
      (\<exists>r. autoCompleteStructurallyAddingChar findParent findStopNode parse textUntilPosition
              dbInfo = Inr r)) \<and>
   (labels dbInfo = None \<or> relationshipTypes dbInfo = None \<or>
    procedureSignatures dbInfo = None \<or> functionSignatures dbInfo = None \<longrightarrow>
      completionCoreCompletion tokenNames lexerSymbols collectCandidates parsingResult dbInfo
        = Inl TypeError) \<and>
   (labels dbInfo \<noteq> None \<and> relationshipTypes dbInfo \<noteq> None \<and>
    procedureSignatures dbInfo \<noteq> None \<and> functionSignatures dbInfo \<noteq> None \<and>
    \<not> (\<exists>t. elemAt toks (startTokenIndex cr + 1) = Some t \<and> tokenType t = SPACE) \<and>
    \<not> (RULE_createAlias \<in> set (ruleList cr) \<or> RULE_createDatabase \<in> set (ruleList cr) \<or>
     RULE_createCompositeDatabase \<in> set (ruleList cr)) \<and>
    (RULE_dropAlias \<in> set (ruleList cr) \<or> RULE_alterAlias \<in> set (ruleList cr) \<or>
     RULE_showAliases \<in> set (ruleList cr)) \<and>
    aliasNames dbInfo = None \<longrightarrow>
      ruleCompletions toks dbInfo [(RULE_symbolicAliasName, cr)] = Inl TypeError) \<and>
   (labels dbInfo \<noteq> None \<and> relationshipTypes dbInfo \<noteq> None \<and>
    procedureSignatures dbInfo \<noteq> None \<and> functionSignatures dbInfo \<noteq> None \<and>
    \<not> (\<exists>t. elemAt toks (startTokenIndex cr + 1) = Some t \<and> tokenType t = SPACE) \<and>
    \<not> (RULE_createAlias \<in> set (ruleList cr) \<or> RULE_createDatabase \<in> set (ruleList cr) \<or>
     RULE_createCompositeDatabase \<in> set (ruleList cr)) \<and>
    \<not> (RULE_dropAlias \<in> set (ruleList cr) \<or> RULE_alterAlias \<in> set (ruleList cr) \<or>
     RULE_showAliases \<in> set (ruleList cr)) \<and>
    databaseNames dbInfo = None \<longrightarrow>
      ruleCompletions toks dbInfo [(RULE_symbolicAliasName, cr)] = Inl TypeError) \<and>
   (labels dbInfo \<noteq> None \<and> relationshipTypes dbInfo \<noteq> None \<and>
    procedureSignatures dbInfo \<noteq> None \<and> functionSignatures dbInfo \<noteq> None \<and>
    \<not> (\<exists>t. elemAt toks (startTokenIndex cr + 1) = Some t \<and> tokenType t = SPACE) \<and>
    \<not> (RULE_createAlias \<in> set (ruleList cr) \<or> RULE_createDatabase \<in> set (ruleList cr) \<or>
     RULE_createCompositeDatabase \<in> set (ruleList cr)) \<and>
    \<not> (RULE_dropAlias \<in> set (ruleList cr) \<or> RULE_alterAlias \<in> set (ruleList cr) \<or>
     RULE_showAliases \<in> set (ruleList cr)) \<and>
    databaseNames dbInfo = Some dbs \<and> aliasNames dbInfo = None \<longrightarrow>
      ruleCompletions toks dbInfo [(RULE_symbolicAliasName, cr)]
        = Inr (map (\<lambda>name. \<lparr>label = Some name, kind = Value\<rparr>) dbs
               @ [\<lparr>label = None, kind = Value\<rparr>])) \<and>
   (2 < length (tokens parsingResult) \<and> tokenText (last (tokens parsingResult)) = ''<EOF>'' \<and>
    tokenType (last (butlast (tokens parsingResult))) \<noteq> SPACE \<and>
    inRelationshipType findParent (findStopNode (result parsingResult)) \<and>
    relationshipTypes dbInfo = None \<longrightarrow>
      autoCompleteStructurally findParent findStopNode parsingResult dbInfo = Inl TypeError) \<and>
   (2 < length (tokens parsingResult) \<and> tokenText (last (tokens parsingResult)) = ''<EOF>'' \<and>
    tokenType (last (butlast (tokens parsingResult))) \<noteq> SPACE \<and>
    \<not> inRelationshipType findParent (findStopNode (result parsingResult)) \<and>
    parentExpression findParent (findStopNode (result parsingResult)) = Some expr \<and>
    functionSignatures dbInfo = None \<longrightarrow>
      autoCompleteStructurally findParent findStopNode parsingResult dbInfo = Inl TypeError) \<and>
   (2 < length (tokens parsingResult) \<and> tokenText (last (tokens parsingResult)) = ''<EOF>'' \<and>
    tokenType (last (butlast (tokens parsingResult))) \<noteq> SPACE \<and>
    \<not> inRelationshipType findParent (findStopNode (result parsingResult)) \<and>
    parentExpression findParent (findStopNode (result parsingResult)) = None \<and>
    inProcedureName findParent (findStopNode (result parsingResult)) \<and>
    procedureSignatures dbInfo = None \<longrightarrow>
      autoCompleteStructurally findParent findStopNode parsingResult dbInfo = Inl TypeError) \<and>
   (2 < length (tokens (parse (textUntilPosition @ ''x''))) \<and>
    tokenType (last (butlast (tokens (parse (textUntilPosition @ ''x''))))) \<noteq> SPACE \<and>
    inRelationshipType findParent (findStopNode (result (parse (textUntilPosition @ ''x'')))) \<and>
    relationshipTypes dbInfo = None \<longrightarrow>
      autoCompleteStructurallyAddingChar findParent findStopNode parse textUntilPosition dbInfo
        = Inl TypeError)"
proof -
  note base = catalogs_present_or_absent [of dbInfo tokenNames lexerSymbols collectCandidates
      parsingResult findParent findStopNode parse textUntilPosition]
  have alias_call: "ruleCompletions toks dbInfo [(RULE_symbolicAliasName, cr)] =
      (case ruleCompletion toks dbInfo lc rc pc (RULE_symbolicAliasName, cr) of
         Inl e \<Rightarrow> Inl e | Inr r \<Rightarrow> Inr (case r of None \<Rightarrow> [] | Some ys \<Rightarrow> ys))"
    if "labels dbInfo \<noteq> None \<and> relationshipTypes dbInfo \<noteq> None \<and>
        procedureSignatures dbInfo \<noteq> None \<and> functionSignatures dbInfo \<noteq> None"
    for lc rc pc
  proof -
    from that obtain ls rs pm fm where p: "labels dbInfo = Some ls"
      "relationshipTypes dbInfo = Some rs" "procedureSignatures dbInfo = Some pm"
      "functionSignatures dbInfo = Some fm" by auto
    have indep: "ruleCompletion toks dbInfo lc' rc' pc' (RULE_symbolicAliasName, cr)
        = ruleCompletion toks dbInfo lc rc pc (RULE_symbolicAliasName, cr)" for lc' rc' pc'
      by (simp add: ruleCompletion_def)
    show ?thesis
    proof (cases "ruleCompletion toks dbInfo lc rc pc (RULE_symbolicAliasName, cr)")
      case (Inl e)
      then show ?thesis
        using ruleCompletions_single_error [OF p, of toks "(RULE_symbolicAliasName, cr)" e] indep
        by simp
    next
      case (Inr r)
      then show ?thesis
        using ruleCompletions_single [OF p, of toks "(RULE_symbolicAliasName, cr)" r] indep
        by simp
    qed
  qed
  show ?thesis
  proof (intro conjI impI)
    assume "labels dbInfo \<noteq> None \<and> relationshipTypes dbInfo \<noteq> None \<and>
      procedureSignatures dbInfo \<noteq> None \<and> functionSignatures dbInfo \<noteq> None \<and>
      databaseNames dbInfo \<noteq> None \<and> aliasNames dbInfo \<noteq> None"
    with base show "\<exists>items. completionCoreCompletion tokenNames lexerSymbols collectCandidates
                  parsingResult dbInfo = Inr items"
      and "\<exists>r. autoCompleteStructurally findParent findStopNode parsingResult dbInfo = Inr r"
      and "\<exists>r. autoCompleteStructurallyAddingChar findParent findStopNode parse
              textUntilPosition dbInfo = Inr r"
      by blast+
  next
    assume "labels dbInfo = None \<or> relationshipTypes dbInfo = None \<or>
      procedureSignatures dbInfo = None \<or> functionSignatures dbInfo = None"
    with base show "completionCoreCompletion tokenNames lexerSymbols collectCandidates
        parsingResult dbInfo = Inl TypeError" by blast
  next
    assume h: "labels dbInfo \<noteq> None \<and> relationshipTypes dbInfo \<noteq> None \<and>
      procedureSignatures dbInfo \<noteq> None \<and> functionSignatures dbInfo \<noteq> None \<and>
      \<not> (\<exists>t. elemAt toks (startTokenIndex cr + 1) = Some t \<and> tokenType t = SPACE) \<and>
      \<not> (RULE_createAlias \<in> set (ruleList cr) \<or> RULE_createDatabase \<in> set (ruleList cr) \<or>
       RULE_createCompositeDatabase \<in> set (ruleList cr)) \<and>
      (RULE_dropAlias \<in> set (ruleList cr) \<or> RULE_alterAlias \<in> set (ruleList cr) \<or>
       RULE_showAliases \<in> set (ruleList cr)) \<and>
      aliasNames dbInfo = None"
    then have "ruleCompletion toks dbInfo [] [] [] (RULE_symbolicAliasName, cr) = Inl TypeError"
      by (auto simp: ruleCompletion_def rulesCreatingNewAliasOrDb_def
          rulesThatOnlyAcceptAlias_def mapItems_def)
    then show "ruleCompletions toks dbInfo [(RULE_symbolicAliasName, cr)] = Inl TypeError"
      using alias_call [of "[]" "[]" "[]"] h by simp
  next
    assume h: "labels dbInfo \<noteq> None \<and> relationshipTypes dbInfo \<noteq> None \<and>
      procedureSignatures dbInfo \<noteq> None \<and> functionSignatures dbInfo \<noteq> None \<and>
      \<not> (\<exists>t. elemAt toks (startTokenIndex cr + 1) = Some t \<and> tokenType t = SPACE) \<and>
      \<not> (RULE_createAlias \<in> set (ruleList cr) \<or> RULE_createDatabase \<in> set (ruleList cr) \<or>
       RULE_createCompositeDatabase \<in> set (ruleList cr)) \<and>
      \<not> (RULE_dropAlias \<in> set (ruleList cr) \<or> RULE_alterAlias \<in> set (ruleList cr) \<or>
       RULE_showAliases \<in> set (ruleList cr)) \<and>
      databaseNames dbInfo = None"
    then have "ruleCompletion toks dbInfo [] [] [] (RULE_symbolicAliasName, cr) = Inl TypeError"
      by (auto simp: ruleCompletion_def rulesCreatingNewAliasOrDb_def
          rulesThatOnlyAcceptAlias_def mapItems_def)
    then show "ruleCompletions toks dbInfo [(RULE_symbolicAliasName, cr)] = Inl TypeError"
      using alias_call [of "[]" "[]" "[]"] h by simp
  next
    assume h: "labels dbInfo \<noteq> None \<and> relationshipTypes dbInfo \<noteq> None \<and>
      procedureSignatures dbInfo \<noteq> None \<and> functionSignatures dbInfo \<noteq> None \<and>
      \<not> (\<exists>t. elemAt toks (startTokenIndex cr + 1) = Some t \<and> tokenType t = SPACE) \<and>
      \<not> (RULE_createAlias \<in> set (ruleList cr) \<or> RULE_createDatabase \<in> set (ruleList cr) \<or>
       RULE_createCompositeDatabase \<in> set (ruleList cr)) \<and>
      \<not> (RULE_dropAlias \<in> set (ruleList cr) \<or> RULE_alterAlias \<in> set (ruleList cr) \<or>
       RULE_showAliases \<in> set (ruleList cr)) \<and>
      databaseNames dbInfo = Some dbs \<and> aliasNames dbInfo = None"
    then have "ruleCompletion toks dbInfo [] [] [] (RULE_symbolicAliasName, cr)
        = Inr (Some (map (\<lambda>name. \<lparr>label = Some name, kind = Value\<rparr>) dbs
               @ [\<lparr>label = None, kind = Value\<rparr>]))"
      by (auto simp: ruleCompletion_def rulesCreatingNewAliasOrDb_def
          rulesThatOnlyAcceptAlias_def concat_js_def)
    then show "ruleCompletions toks dbInfo [(RULE_symbolicAliasName, cr)]
        = Inr (map (\<lambda>name. \<lparr>label = Some name, kind = Value\<rparr>) dbs
               @ [\<lparr>label = None, kind = Value\<rparr>])"
      using alias_call [of "[]" "[]" "[]"] h by simp
  next
    assume "2 < length (tokens parsingResult) \<and>
      tokenText (last (tokens parsingResult)) = ''<EOF>'' \<and>
      tokenType (last (butlast (tokens parsingResult))) \<noteq> SPACE \<and>
      inRelationshipType findParent (findStopNode (result parsingResult)) \<and>
      relationshipTypes dbInfo = None"
    then show "autoCompleteStructurally findParent findStopNode parsingResult dbInfo
        = Inl TypeError"
      by (simp add: autoCompleteStructurally_unfold someItems_def autocompleteRelTypes_def
          mapItems_def)
  next
    assume "2 < length (tokens parsingResult) \<and>
      tokenText (last (tokens parsingResult)) = ''<EOF>'' \<and>
      tokenType (last (butlast (tokens parsingResult))) \<noteq> SPACE \<and>
      \<not> inRelationshipType findParent (findStopNode (result parsingResult)) \<and>
      parentExpression findParent (findStopNode (result parsingResult)) = Some expr \<and>
      functionSignatures dbInfo = None"
    then show "autoCompleteStructurally findParent findStopNode parsingResult dbInfo
        = Inl TypeError"
      by (simp add: autoCompleteStructurally_unfold someItems_def autoCompleteFunctions_def
          mapItems_def)
  next
    assume "2 < length (tokens parsingResult) \<and>
      tokenText (last (tokens parsingResult)) = ''<EOF>'' \<and>
      tokenType (last (butlast (tokens parsingResult))) \<noteq> SPACE \<and>
      \<not> inRelationshipType findParent (findStopNode (result parsingResult)) \<and>
      parentExpression findParent (findStopNode (result parsingResult)) = None \<and>
      inProcedureName findParent (findStopNode (result parsingResult)) \<and>
      procedureSignatures dbInfo = None"
    then show "autoCompleteStructurally findParent findStopNode parsingResult dbInfo
        = Inl TypeError"
      by (simp add: autoCompleteStructurally_unfold someItems_def autoCompleteProcNames_def
          mapItems_def)
  next
    assume "2 < length (tokens (parse (textUntilPosition @ ''x''))) \<and>
      tokenType (last (butlast (tokens (parse (textUntilPosition @ ''x''))))) \<noteq> SPACE \<and>
      inRelationshipType findParent
        (findStopNode (result (parse (textUntilPosition @ ''x'')))) \<and>
      relationshipTypes dbInfo = None"
    then show "autoCompleteStructurallyAddingChar findParent findStopNode parse
        textUntilPosition dbInfo = Inl TypeError"
      by (simp add: autoCompleteStructurallyAddingChar_unfold someItems_def
          autocompleteRelTypes_def mapItems_def)
  qed
qed

text \<open>
  Claim C8 as stated fails: with the labels absent \<^verbatim>\<open>completionCoreCompletion\<close>
  throws, and with the relationship types absent \<^verbatim>\<open>autoCompleteStructurally\<close> throws
  inside a relationship type.
\<close>

theorem absent_catalog_field_counterexample:
  "completionCoreCompletion sampleTokenNames []
     (\<lambda>p preferred ignored caretIndex. \<lparr>rules = [], tokenEntries = []\<rparr>)
     \<lparr>parser = (), tokens = [word ''M'', eofToken], result = ()\<rparr>
     \<lparr>labels = None, relationshipTypes = Some [], procedureSignatures = Some [],
      functionSignatures = Some [], databaseNames = Some [], aliasNames = Some []\<rparr>
     = Inl TypeError \<and>
   autoCompleteStructurally findParent_spec (\<lambda>tree. tree)
     \<lparr>parser = (), tokens = typedTokens, result = relTypeNode\<rparr>
     \<lparr>labels = Some [], relationshipTypes = None, procedureSignatures = Some [],
      functionSignatures = Some [], databaseNames = Some [], aliasNames = Some []\<rparr>
     = Inl TypeError"
  by (simp add: completionCoreCompletion_def caretIndexOf_def ruleCompletions_def mapItems_def
      autoCompleteStructurally_unfold typedTokens_def word_def space_def
      eofToken_def relTypeNode_def findParent_spec_def inRelationshipType_def isLabel_def
      isDefined_def someItems_def autocompleteRelTypes_def)

text \<open>
  Claim C8 as amended, at concrete inputs.
\<close>

theorem absent_catalog_field_witness:
  "completionCoreCompletion sampleTokenNames [] labelCollector
     \<lparr>parser = (), tokens = matchLabelTokens, result = relTypeNode\<rparr> labelsOnlyDb
     = Inr [\<lparr>label = Some ''Cat'', kind = TypeParameter\<rparr>,
            \<lparr>label = Some ''Person'', kind = TypeParameter\<rparr>,
            \<lparr>label = Some ''Dog'', kind = TypeParameter\<rparr>] \<and>
   autoCompleteStructurally findParent_spec (\<lambda>tree. tree)
     \<lparr>parser = (), tokens = matchLabelTokens, result = relTypeNode\<rparr> labelsOnlyDb
     = Inr (Some []) \<and>
   autoCompleteStructurallyAddingChar findParent_spec (\<lambda>tree. tree)
     (\<lambda>text. \<lparr>parser = (), tokens = typedTokens, result = relTypeNode\<rparr>) ''MATCH ()-[:''
     labelsOnlyDb = Inr (Some []) \<and>
   completionCoreCompletion sampleTokenNames [] labelCollector
     \<lparr>parser = (), tokens = matchLabelTokens, result = relTypeNode\<rparr>
     (labelsOnlyDb\<lparr>functionSignatures := None\<rparr>) = Inl TypeError \<and>
   ruleCompletions [word ''DROP'', space, word ''ALIAS'', space, word ''a'', eofToken]
     (sampleDb\<lparr>aliasNames := None\<rparr>)
     [(RULE_symbolicAliasName, \<lparr>startTokenIndex = 4, ruleList = [RULE_dropAlias]\<rparr>)]
     = Inl TypeError \<and>
   ruleCompletions [word ''USE'', space, word ''n'', eofToken]
     (sampleDb\<lparr>databaseNames := None\<rparr>)
     [(RULE_symbolicAliasName, \<lparr>startTokenIndex = 2, ruleList = [RULE_other 7]\<rparr>)]
     = Inl TypeError \<and>
   ruleCompletions [word ''USE'', space, word ''n'', eofToken]
     (sampleDb\<lparr>aliasNames := None\<rparr>)
     [(RULE_symbolicAliasName, \<lparr>startTokenIndex = 2, ruleList = [RULE_other 7]\<rparr>)]
     = Inr [\<lparr>label = Some ''neo4j'', kind = Value\<rparr>, \<lparr>label = Some ''system'', kind = Value\<rparr>,
            \<lparr>label = None, kind = Value\<rparr>] \<and>
   autoCompleteStructurally findParent_spec (\<lambda>tree. tree)
     \<lparr>parser = (), tokens = typedTokens, result = relTypeNode\<rparr>
     (sampleDb\<lparr>relationshipTypes := None\<rparr>) = Inl TypeError \<and>
   autoCompleteStructurally findParent_spec (\<lambda>tree. tree)
     \<lparr>parser = (), tokens = typedTokens, result = expressionNode\<rparr>
     (sampleDb\<lparr>functionSignatures := None\<rparr>) = Inl TypeError \<and>
   autoCompleteStructurally findParent_spec (\<lambda>tree. tree)
     \<lparr>parser = (), tokens = typedTokens, result = procedureNode\<rparr>
     (sampleDb\<lparr>procedureSignatures := None\<rparr>) = Inl TypeError \<and>
   autoCompleteStructurallyAddingChar findParent_spec (\<lambda>tree. tree)
     (\<lambda>text. \<lparr>parser = (), tokens = typedTokens, result = relTypeNode\<rparr>) ''MATCH ()-[:''
     (sampleDb\<lparr>relationshipTypes := None\<rparr>) = Inl TypeError"
  using
    absent_catalog_field
      [where dbInfo = labelsOnlyDb and tokenNames = sampleTokenNames and lexerSymbols = "[]"
       and collectCandidates = labelCollector
       and parsingResult = "\<lparr>parser = (), tokens = matchLabelTokens, result = relTypeNode\<rparr>"
       and findParent = findParent_spec and findStopNode = "\<lambda>tree. tree"
       and parse = "\<lambda>text. \<lparr>parser = (), tokens = typedTokens, result = relTypeNode\<rparr>"
       and textUntilPosition = "''MATCH ()-[:''"]
    absent_catalog_field
      [where dbInfo = "labelsOnlyDb\<lparr>functionSignatures := None\<rparr>"
       and tokenNames = sampleTokenNames and lexerSymbols = "[]"
       and collectCandidates = labelCollector
       and parsingResult = "\<lparr>parser = (), tokens = matchLabelTokens, result = relTypeNode\<rparr>"]
    absent_catalog_field
      [where dbInfo = "sampleDb\<lparr>aliasNames := None\<rparr>"
       and toks = "[word ''DROP'', space, word ''ALIAS'', space, word ''a'', eofToken]"
       and cr = "\<lparr>startTokenIndex = 4, ruleList = [RULE_dropAlias]\<rparr>"]
    absent_catalog_field
      [where dbInfo = "sampleDb\<lparr>databaseNames := None\<rparr>"
       and toks = "[word ''USE'', space, word ''n'', eofToken]"
       and cr = "\<lparr>startTokenIndex = 2, ruleList = [RULE_other 7]\<rparr>"]
    absent_catalog_field
      [where dbInfo = "sampleDb\<lparr>aliasNames := None\<rparr>"
       and toks = "[word ''USE'', space, word ''n'', eofToken]"
       and cr = "\<lparr>startTokenIndex = 2, ruleList = [RULE_other 7]\<rparr>"
       and dbs = "[''neo4j'', ''system'']"]
    absent_catalog_field
      [where dbInfo = "sampleDb\<lparr>relationshipTypes := None\<rparr>"
       and parsingResult = "\<lparr>parser = (), tokens = typedTokens, result = relTypeNode\<rparr>"
       and findParent = findParent_spec and findStopNode = "\<lambda>tree. tree"
       and parse = "\<lambda>text. \<lparr>parser = (), tokens = typedTokens, result = relTypeNode\<rparr>"
       and textUntilPosition = "''MATCH ()-[:''"]
    absent_catalog_field
      [where dbInfo = "sampleDb\<lparr>functionSignatures := None\<rparr>"
       and parsingResult = "\<lparr>parser = (), tokens = typedTokens, result = expressionNode\<rparr>"
       and findParent = findParent_spec and findStopNode = "\<lambda>tree. tree"
       and expr = "ParserRuleContext Expression2Context ''ab'' None"]
    absent_catalog_field
      [where dbInfo = "sampleDb\<lparr>procedureSignatures := None\<rparr>"
       and parsingResult = "\<lparr>parser = (), tokens = typedTokens, result = procedureNode\<rparr>"
       and findParent = findParent_spec and findStopNode = "\<lambda>tree. tree"]
  by (simp add: completionCoreCompletion_def caretIndexOf_def labelCollector_def
      preferredRules_def matchLabelTokens_def labelsOnlyDb_def sampleDb_def
      ruleCompletions_def ruleCompletion_def mapItems_def
      keys_def tokenCompletions_def filterNotNull_def elemAt_def concat_js_def
      rulesCreatingNewAliasOrDb_def rulesThatOnlyAcceptAlias_def
      autoCompleteStructurally_unfold autoCompleteStructurallyAddingChar_unfold
      typedTokens_def word_def space_def eofToken_def
      relTypeNode_def expressionNode_def procedureNode_def
      findParent_spec_def inRelationshipType_def parentExpression_def inProcedureName_def
      isLabel_def isDefined_def someItems_def autocompleteRelTypes_def
      autoCompleteFunctions_def autoCompleteProcNames_def)

subsection \<open>A single token\<close>

text \<open>
  Claim C10. On a token array of at most two tokens both structural resolvers return
  \<^verbatim>\<open>undefined\<close>, whatever the tokens are: neither the text of the end marker nor the
  type of the last token is looked at.
\<close>

theorem structural_single_token_no_opinion:
  "(int (length (tokens parsingResult)) - 2 \<le> 0 \<longrightarrow>
      autoCompleteStructurally findParent findStopNode parsingResult dbInfo = Inr None) \<and>
   (int (length (tokens (parse (textUntilPosition @ ''x'')))) - 2 \<le> 0 \<longrightarrow>
      autoCompleteStructurallyAddingChar findParent findStopNode parse textUntilPosition dbInfo
        = Inr None)"
  by (simp add: autoCompleteStructurally_def autoCompleteStructurallyAddingChar_def Let_def)

text \<open>
  Claim C10, at concrete inputs: an end marker with another text, and a single
  whitespace token.
\<close>

theorem structural_single_token_no_opinion_witness:
  "autoCompleteStructurally findParent_spec (\<lambda>tree. tree)
     \<lparr>parser = (), tokens = [word ''M'', \<lparr>tokenType = EOF, tokenText = ''<missing>''\<rparr>],
      result = ParserRuleContext (OtherContext 0) ''M'' None\<rparr> sampleDb = Inr None \<and>
   autoCompleteStructurallyAddingChar findParent_spec (\<lambda>tree. tree)
     (\<lambda>text. \<lparr>parser = (), tokens = [space, eofToken],
               result = ParserRuleContext (OtherContext 0) text None\<rparr>) '' '' sampleDb = Inr None"
  using structural_single_token_no_opinion
    [where parsingResult = "\<lparr>parser = (), tokens = [word ''M'', \<lparr>tokenType = EOF, tokenText = ''<missing>''\<rparr>],
      result = ParserRuleContext (OtherContext 0) ''M'' None\<rparr>"
     and parse = "\<lambda>text. \<lparr>parser = (), tokens = [space, eofToken],
               result = ParserRuleContext (OtherContext 0) text None\<rparr>"
     and findParent = findParent_spec and findStopNode = "\<lambda>tree. tree"
     and textUntilPosition = "'' ''" and dbInfo = sampleDb]
  by simp

end
